theory Spec2Isabelle
  imports Main "HOL-Library.Sublist" "HOL-Library.Word"
begin

section \<open>JavaScript values and thrown errors\<close>

text \<open>
  The fragment of the JavaScript value universe that the code of
  \<^verbatim>\<open>nonce-eth-tx-middleware.ts\<close> can tell apart. \<open>JSError m\<close> is an object for which
  \<^verbatim>\<open>instanceof Error\<close> holds, with \<open>m\<close> the value of its \<^verbatim>\<open>message\<close> property;
  \<open>JSObject\<close> is any other object, given by its own properties. A \<^verbatim>\<open>throw\<close> is the
  left injection of a sum, the thrown value inside.
\<close>

datatype js_value =
    JSUndefined
  | JSNull
  | JSBoolean bool
  | JSNumber int
  | JSString string
  | JSObject "(string \<times> js_value) list"
  | JSError js_value

type_synonym 'a result = "js_value + 'a"

type_synonym bytes = "8 word list"

text \<open>Sequencing of statements that may throw: the first throw ends the evaluation.\<close>

definition and_then :: "'a result \<Rightarrow> ('a \<Rightarrow> 'b result) \<Rightarrow> 'b result" where
  "and_then m f = (case m of Inl e \<Rightarrow> Inl e | Inr x \<Rightarrow> f x)"

text \<open>\<^verbatim>\<open>new Error(msg)\<close>\<close>

definition new_Error :: "string \<Rightarrow> js_value" where
  "new_Error msg = JSError (JSString msg)"

text \<open>\<^verbatim>\<open>err instanceof Error\<close>\<close>

fun instanceof_Error :: "js_value \<Rightarrow> bool" where
  "instanceof_Error (JSError m) = True"
| "instanceof_Error v = False"

text \<open>
  The property read \<^verbatim>\<open>err.message\<close>, used by the source only behind
  \<^verbatim>\<open>err instanceof Error &&\<close>, hence never on \<^verbatim>\<open>undefined\<close> or \<^verbatim>\<open>null\<close>.
\<close>

fun get_message :: "js_value \<Rightarrow> js_value" where
  "get_message (JSError m) = m"
| "get_message (JSObject props) =
     (case map_of props ''message'' of Some v \<Rightarrow> v | None \<Rightarrow> JSUndefined)"
| "get_message v = JSUndefined"

text \<open>
  \<^verbatim>\<open>String.prototype.indexOf(searchString)\<close>: the index of the first occurrence, or
  \<open>-1\<close> when there is none. The scan runs over the positions of the receiver from the
  left; the third argument is the index of the position under inspection.
\<close>

fun indexOf_from :: "string \<Rightarrow> string \<Rightarrow> int \<Rightarrow> int" where
  "indexOf_from [] pat i = (if pat = [] then i else - 1)"
| "indexOf_from (c # cs) pat i =
     (if prefix pat (c # cs) then i else indexOf_from cs pat (i + 1))"

definition indexOf :: "string \<Rightarrow> string \<Rightarrow> int" where
  "indexOf s pat = indexOf_from s pat 0"


section \<open>Sequencer middleware (\<^verbatim>\<open>NonceEthTxMiddleware\<close>)\<close>

definition INVALID_TX_NONCE_ERROR :: string where
  "INVALID_TX_NONCE_ERROR = ''Invalid tx nonce''"

text \<open>
  \<^verbatim>\<open>export function isInvalidTxNonceError(err: any): boolean {
    return err instanceof Error && err.message === INVALID_TX_NONCE_ERROR
  }\<close>
\<close>

definition isInvalidTxNonceError :: "js_value \<Rightarrow> bool" where
  "isInvalidTxNonceError err =
     (instanceof_Error err \<and> get_message err = JSString INVALID_TX_NONCE_ERROR)"

text \<open>
  The result of one stage of a submitted transaction and the pair of stages
  (\<^verbatim>\<open>ITxResults\<close> of \<^verbatim>\<open>../client\<close>). The declarations are not part of the file; the
  fields are those \<^verbatim>\<open>HandleResults\<close> reads, each of them possibly \<^verbatim>\<open>undefined\<close>,
  which is how the source treats them (\<^verbatim>\<open>validation &&\<close>, \<^verbatim>\<open>validation.log &&\<close>).
\<close>

record ITxHandlerResult =
  code :: "int option"
  log :: "string option"

record ITxResults =
  validation :: "ITxHandlerResult option"
  commit :: "ITxHandlerResult option"

text \<open>
  One of the two guards of \<^verbatim>\<open>HandleResults\<close>:
  \<^verbatim>\<open>stage && stage.code === 1 &&
    (stage.log && stage.log.indexOf('sequence number does not match') !== -1)\<close>.
  A string is truthy when it is not empty.
\<close>

definition nonce_mismatch :: "ITxHandlerResult option \<Rightarrow> bool" where
  "nonce_mismatch stage =
     (case stage of
        None \<Rightarrow> False
      | Some st \<Rightarrow>
          code st = Some 1 \<and>
          (case log st of
             None \<Rightarrow> False
           | Some l \<Rightarrow> l \<noteq> [] \<and> indexOf l ''sequence number does not match'' \<noteq> - 1))"

definition HandleResults :: "ITxResults \<Rightarrow> ITxResults result" where
  "HandleResults results =
     (if nonce_mismatch (validation results) then Inl (new_Error INVALID_TX_NONCE_ERROR)
      else if nonce_mismatch (commit results) then Inl (new_Error INVALID_TX_NONCE_ERROR)
      else Inr results)"

text \<open>
  The collaborator of the middleware: the client, of which \<^verbatim>\<open>Handle\<close> uses
  \<^verbatim>\<open>getNonce2Async(namespace, address)\<close> only. The awaited promise either rejects (a
  throw at the \<^verbatim>\<open>await\<close>) or yields the sequence number of the last committed
  transaction, a non-negative integer. The fields \<open>fromAddress\<close> and \<open>client\<close> of the
  middleware are the private fields \<^verbatim>\<open>_fromAddress\<close> and \<^verbatim>\<open>_client\<close>.
\<close>

record Client =
  getNonce2Async :: "string \<Rightarrow> string \<Rightarrow> nat result"

record NonceEthTxMiddleware =
  fromAddress :: string
  client :: Client

text \<open>The envelope \<^verbatim>\<open>NonceTx\<close>: the two fields that \<^verbatim>\<open>Handle\<close> sets.\<close>

record NonceTx =
  inner :: bytes
  sequence :: nat

text \<open>
  The sequence number is a JavaScript \<^verbatim>\<open>number\<close>, an IEEE 754 double, and
  \<^verbatim>\<open>nonce + 1\<close> is the addition of doubles. On operands that are non-negative integers
  the sum is the exact sum rounded to the nearest double, a tie going to the neighbour
  whose significand is even. A double has 53 significant bits: an integer below
  \<open>2^53\<close> is a double, and an integer of \<open>b > 53\<close> bits is one when it is a multiple of
  \<open>2^(b - 53)\<close>. The integers in question stay far below the largest double, so the
  rounding never overflows.
\<close>

fun bit_length :: "nat \<Rightarrow> nat" where
  "bit_length n = (if n = 0 then 0 else Suc (bit_length (n div 2)))"

declare bit_length.simps [simp del]

definition round_to_double :: "nat \<Rightarrow> nat" where
  "round_to_double m =
     (if m < 2 ^ 53 then m
      else
        let u = 2 ^ (bit_length m - 53); q = m div u; rest = m mod u
        in if 2 * rest < u \<or> (2 * rest = u \<and> even q) then q * u else (q + 1) * u)"

definition number_add :: "nat \<Rightarrow> nat \<Rightarrow> nat" where
  "number_add a b = round_to_double (a + b)"

text \<open>
  \<^verbatim>\<open>async Handle(txData) {
    const nonce = await this._client.getNonce2Async('eth', this._fromAddress)
    const tx = new NonceTx(); tx.setInner(txData); tx.setSequence(nonce + 1)
    return tx.serializeBinary()
  }\<close>
  The wire encoding \<^verbatim>\<open>serializeBinary\<close> belongs to the generated protobuf code and is a
  parameter here; it throws on an envelope it cannot encode, such as one whose sequence
  number does not fit the 64 bits of the field. The line written to the debug log has no
  part in the result.
\<close>

definition Handle ::
  "(NonceTx \<Rightarrow> bytes result) \<Rightarrow> NonceEthTxMiddleware \<Rightarrow> bytes \<Rightarrow> bytes result" where
  "Handle serializeBinary this txData =
     and_then (getNonce2Async (client this) ''eth'' (fromAddress this))
       (\<lambda>nonce. serializeBinary \<lparr>inner = txData, sequence = number_add nonce 1\<rparr>)"


section \<open>Transfer gateway (\<^verbatim>\<open>TransferGateway\<close>)\<close>

subsection \<open>Data\<close>

text \<open>
  \<^verbatim>\<open>TransferGatewayTokenKind\<close> is an enumeration of the generated protobuf code. The source
  names the members \<open>ERC721\<close>, \<open>ERC721X\<close> and \<open>ERC20\<close>, and the native coin is \<open>ETH\<close>; a
  decoded message may carry any other discriminant, which is \<open>UNKNOWN\<close> with its number.
\<close>

datatype TransferGatewayTokenKind = ETH | ERC20 | ERC721 | ERC721X | UNKNOWN nat

text \<open>\<^verbatim>\<open>BN\<close> of \<^verbatim>\<open>bn.js\<close>: an integer of arbitrary size.\<close>

type_synonym BN = int

text \<open>\<^verbatim>\<open>Address\<close> of \<^verbatim>\<open>../address\<close>: a chain identifier and a local address.\<close>

record Address =
  chainId :: string
  local :: bytes

text \<open>\<^verbatim>\<open>utils.Signature\<close> of \<^verbatim>\<open>ethers\<close>: the split form of a signature.\<close>

record Signature =
  sig_r :: string
  sig_s :: string
  sig_recoveryParam :: "nat option"
  sig_v :: "nat option"

text \<open>
  The protobuf messages the gateway reads, by their getters. \<open>'n\<close> is the message
  \<^verbatim>\<open>BigUInt\<close> and \<open>'a\<close> the message \<^verbatim>\<open>Address\<close>; a getter of a message-typed field gives
  \<^verbatim>\<open>undefined\<close> (\<open>None\<close>) when the field is not set. The withdrawal receipt has the
  getters of the signed-withdrawal event and the withdrawal nonce.
\<close>

record ('n, 'a) TransferGatewayTokenWithdrawalSigned =
  getTokenKind :: TransferGatewayTokenKind
  getTokenId :: "'n option"
  getTokenAmount :: "'n option"
  getTokenOwner :: "'a option"
  getTokenContract :: "'a option"
  getValidatorSignaturesList :: "bytes list"

record ('n, 'a) TransferGatewayWithdrawalReceipt =
  "('n, 'a) TransferGatewayTokenWithdrawalSigned" +
  getWithdrawalNonce :: nat

record 'a TransferGatewayContractMappingConfirmed =
  getForeignContract :: "'a option"
  getLocalContract :: "'a option"

record ('n, 'a) TransferGatewayWithdrawalReceiptResponse =
  getReceipt :: "('n, 'a) TransferGatewayWithdrawalReceipt option"

text \<open>The protobuf messages the gateway sends, by the fields it sets.\<close>

record ('n, 'a) TransferGatewayWithdrawTokenRequest =
  wt_tokenKind :: "TransferGatewayTokenKind option"
  wt_tokenId :: "'n option"
  wt_tokenAmount :: "'n option"
  wt_tokenContract :: "'a option"
  wt_recipient :: "'a option"

record ('n, 'a) TransferGatewayWithdrawETHRequest =
  we_amount :: "'n option"
  we_mainnetGateway :: "'a option"
  we_recipient :: "'a option"

record 'a TransferGatewayWithdrawalReceiptRequest =
  wr_owner :: "'a option"

datatype ('n, 'a) request =
    WithdrawTokenRequest "('n, 'a) TransferGatewayWithdrawTokenRequest"
  | WithdrawETHRequest "('n, 'a) TransferGatewayWithdrawETHRequest"
  | WithdrawalReceiptRequest "'a TransferGatewayWithdrawalReceiptRequest"

text \<open>The values the gateway hands to its caller.\<close>

record ITokenWithdrawalEventArgs =
  tokenOwner :: Address
  tokenContract :: Address
  tokenKind :: TransferGatewayTokenKind
  tokenId :: "BN option"
  tokenAmount :: "BN option"
  sigs :: "Signature list"
  value' :: BN

record IWithdrawalReceipt = ITokenWithdrawalEventArgs +
  withdrawalNonce :: BN

record IContractMappingConfirmedEventArgs =
  foreignContract :: Address
  localContract :: Address

datatype emitted =
    TokenWithdrawal ITokenWithdrawalEventArgs
  | ContractMappingConfirmed IContractMappingConfirmedEventArgs

text \<open>An event delivered on \<^verbatim>\<open>Contract.EVENT\<close>.\<close>

record IChainEventArgs =
  topics :: "string list option"
  data :: string

subsection \<open>Collaborators\<close>

text \<open>
  The functions the gateway imports and the source file does not define:
  \<^verbatim>\<open>marshalBigUIntPB\<close> and \<^verbatim>\<open>unmarshalBigUIntPB\<close> of \<^verbatim>\<open>../big-uint\<close>, the methods
  \<^verbatim>\<open>MarshalPB\<close> and \<^verbatim>\<open>UnmarshalPB\<close> of \<^verbatim>\<open>Address\<close>, \<^verbatim>\<open>utils.splitSignature\<close> of
  \<^verbatim>\<open>ethers\<close>, the constructor of \<^verbatim>\<open>BN\<close> from a number, \<^verbatim>\<open>B64ToUint8Array\<close> and the two
  \<^verbatim>\<open>deserializeBinary\<close> of the generated messages. They are parameters of the model.
  Whatever reads a value that came over the wire may throw; the source applies the
  unmarshalling functions to the getter's result under a non-null assertion, so they
  receive \<^verbatim>\<open>undefined\<close> when the field is not set. The two marshalling functions
  receive a \<^verbatim>\<open>BN\<close> or an \<^verbatim>\<open>Address\<close> of the caller, as the signatures of the
  methods demand, and yield a message.
\<close>

record ('n, 'a) externals =
  marshalBigUIntPB :: "BN \<Rightarrow> 'n"
  unmarshalBigUIntPB :: "'n option \<Rightarrow> BN result"
  MarshalPB :: "Address \<Rightarrow> 'a"
  UnmarshalPB :: "'a option \<Rightarrow> Address result"
  splitSignature :: "bytes \<Rightarrow> Signature result"
  new_BN :: "nat \<Rightarrow> BN result"
  B64ToUint8Array :: "string \<Rightarrow> bytes result"
  TokenWithdrawalSigned_deserializeBinary ::
    "bytes \<Rightarrow> ('n, 'a) TransferGatewayTokenWithdrawalSigned result"
  ContractMappingConfirmed_deserializeBinary ::
    "bytes \<Rightarrow> 'a TransferGatewayContractMappingConfirmed result"

text \<open>
  The two methods of the base class \<^verbatim>\<open>Contract\<close> that reach the chain: \<^verbatim>\<open>callAsync\<close>
  submits a transaction, \<^verbatim>\<open>staticCallAsync\<close> queries. Either may reject.
\<close>

record ('n, 'a) Contract =
  callAsync :: "string \<Rightarrow> ('n, 'a) request \<Rightarrow> unit result"
  staticCallAsync ::
    "string \<Rightarrow> ('n, 'a) request \<Rightarrow> ('n, 'a) TransferGatewayWithdrawalReceiptResponse result"

text \<open>
  \<^verbatim>\<open>Array.prototype.map\<close> with a callback that may throw: the elements are visited from
  the left, and the first throw ends the loop.
\<close>

fun map_throwing :: "('x \<Rightarrow> 'y result) \<Rightarrow> 'x list \<Rightarrow> 'y list result" where
  "map_throwing f [] = Inr []"
| "map_throwing f (x # xs) =
     and_then (f x) (\<lambda>y. and_then (map_throwing f xs) (\<lambda>ys. Inr (y # ys)))"

subsection \<open>Constants of the class\<close>

definition EVENT_TOKEN_WITHDRAWAL :: string where
  "EVENT_TOKEN_WITHDRAWAL = ''event_token_withdrawal''"

definition EVENT_CONTRACT_MAPPING_CONFIRMED :: string where
  "EVENT_CONTRACT_MAPPING_CONFIRMED = ''event_contract_mapping_confirmed''"

definition tokenWithdrawalSignedEventTopic :: string where
  "tokenWithdrawalSignedEventTopic = ''event:TokenWithdrawalSigned''"

definition contractMappingConfirmedEventTopic :: string where
  "contractMappingConfirmedEventTopic = ''event:ContractMappingConfirmed''"

subsection \<open>The listener on \<^verbatim>\<open>Contract.EVENT\<close>\<close>

text \<open>
  The callback the constructor registers. Its result is the list of the calls of
  \<^verbatim>\<open>this.emit(name, args)\<close> it makes, or the value it throws. The \<^verbatim>\<open>switch\<close> on the token
  kind has three entries: \<open>ERC721\<close> ends with a \<^verbatim>\<open>break\<close>, \<open>ERC721X\<close> falls through into
  \<^verbatim>\<open>default\<close>. The object literal passed to \<^verbatim>\<open>emit\<close> is evaluated property by property,
  in the order written.
\<close>

definition on_event :: "('n, 'a) externals \<Rightarrow> IChainEventArgs \<Rightarrow> (string \<times> emitted) list result" where
  "on_event ext event =
     (case topics event of
        None \<Rightarrow> Inr []
      | Some ts \<Rightarrow>
          if length ts = 0 then Inr []
          else if ts ! 0 = tokenWithdrawalSignedEventTopic then
            and_then (B64ToUint8Array ext (data event)) (\<lambda>buf.
            and_then (TokenWithdrawalSigned_deserializeBinary ext buf) (\<lambda>eventData.
            and_then
              (case getTokenKind eventData of
                 ERC721 \<Rightarrow>
                   and_then (unmarshalBigUIntPB ext (getTokenId eventData)) (\<lambda>tid.
                   Inr (Some tid, None, tid))
               | ERC721X \<Rightarrow>
                   and_then (unmarshalBigUIntPB ext (getTokenId eventData)) (\<lambda>tid.
                   and_then (unmarshalBigUIntPB ext (getTokenAmount eventData)) (\<lambda>amt.
                   Inr (Some tid, Some amt, amt)))
               | _ \<Rightarrow>
                   and_then (unmarshalBigUIntPB ext (getTokenAmount eventData)) (\<lambda>amt.
                   Inr (None, Some amt, amt)))
              (\<lambda>(tid, amt, val).
            and_then (UnmarshalPB ext (getTokenOwner eventData)) (\<lambda>owner.
            and_then (UnmarshalPB ext (getTokenContract eventData)) (\<lambda>contract.
            and_then (map_throwing (splitSignature ext) (getValidatorSignaturesList eventData))
              (\<lambda>sgs.
            Inr [(EVENT_TOKEN_WITHDRAWAL,
                  TokenWithdrawal
                    \<lparr>tokenOwner = owner, tokenContract = contract,
                     tokenKind = getTokenKind eventData, tokenId = tid, tokenAmount = amt,
                     sigs = sgs, value' = val\<rparr>)]))))))
          else if ts ! 0 = contractMappingConfirmedEventTopic then
            and_then (B64ToUint8Array ext (data event)) (\<lambda>buf.
            and_then (ContractMappingConfirmed_deserializeBinary ext buf) (\<lambda>confirmed.
            and_then (UnmarshalPB ext (getForeignContract confirmed)) (\<lambda>foreign.
            and_then (UnmarshalPB ext (getLocalContract confirmed)) (\<lambda>loc.
            Inr [(EVENT_CONTRACT_MAPPING_CONFIRMED,
                  ContractMappingConfirmed
                    \<lparr>foreignContract = foreign, localContract = loc\<rparr>)]))))
          else Inr [])"

subsection \<open>Withdrawal requests\<close>

text \<open>
  Each method makes a fresh request, calls the setters shown and returns the promise of
  \<^verbatim>\<open>this.callAsync\<close>. A field no setter was called for stays unset. The optional
  parameter \<^verbatim>\<open>recipient?: Address\<close> is \<open>None\<close> when the caller omits it; an \<^verbatim>\<open>Address\<close>
  object is truthy, so \<^verbatim>\<open>if (recipient)\<close> asks whether it was given.
\<close>

definition withdrawERC721Async ::
  "('n, 'a) externals \<Rightarrow> ('n, 'a) Contract \<Rightarrow> BN \<Rightarrow> Address \<Rightarrow> Address option \<Rightarrow> unit result"
where
  "withdrawERC721Async ext this tid contract recipient =
     (let req = \<lparr>wt_tokenKind = None, wt_tokenId = None, wt_tokenAmount = None,
                 wt_tokenContract = None, wt_recipient = None\<rparr>;
          req = req\<lparr>wt_tokenKind := Some ERC721\<rparr>;
          req = req\<lparr>wt_tokenId := Some (marshalBigUIntPB ext tid)\<rparr>;
          req = req\<lparr>wt_tokenContract := Some (MarshalPB ext contract)\<rparr>;
          req = (case recipient of
                   Some rcp \<Rightarrow> req\<lparr>wt_recipient := Some (MarshalPB ext rcp)\<rparr>
                 | None \<Rightarrow> req)
      in callAsync this ''WithdrawToken'' (WithdrawTokenRequest req))"

definition withdrawERC721XAsync ::
  "('n, 'a) externals \<Rightarrow> ('n, 'a) Contract \<Rightarrow> BN \<Rightarrow> BN \<Rightarrow> Address \<Rightarrow> Address option
     \<Rightarrow> unit result"
where
  "withdrawERC721XAsync ext this tid amount contract recipient =
     (let req = \<lparr>wt_tokenKind = None, wt_tokenId = None, wt_tokenAmount = None,
                 wt_tokenContract = None, wt_recipient = None\<rparr>;
          req = req\<lparr>wt_tokenKind := Some ERC721X\<rparr>;
          req = req\<lparr>wt_tokenId := Some (marshalBigUIntPB ext tid)\<rparr>;
          req = req\<lparr>wt_tokenAmount := Some (marshalBigUIntPB ext amount)\<rparr>;
          req = req\<lparr>wt_tokenContract := Some (MarshalPB ext contract)\<rparr>;
          req = (case recipient of
                   Some rcp \<Rightarrow> req\<lparr>wt_recipient := Some (MarshalPB ext rcp)\<rparr>
                 | None \<Rightarrow> req)
      in callAsync this ''WithdrawToken'' (WithdrawTokenRequest req))"

definition withdrawERC20Async ::
  "('n, 'a) externals \<Rightarrow> ('n, 'a) Contract \<Rightarrow> BN \<Rightarrow> Address \<Rightarrow> Address option \<Rightarrow> unit result"
where
  "withdrawERC20Async ext this amount contract recipient =
     (let req = \<lparr>wt_tokenKind = None, wt_tokenId = None, wt_tokenAmount = None,
                 wt_tokenContract = None, wt_recipient = None\<rparr>;
          req = req\<lparr>wt_tokenKind := Some ERC20\<rparr>;
          req = req\<lparr>wt_tokenAmount := Some (marshalBigUIntPB ext amount)\<rparr>;
          req = req\<lparr>wt_tokenContract := Some (MarshalPB ext contract)\<rparr>;
          req = (case recipient of
                   Some rcp \<Rightarrow> req\<lparr>wt_recipient := Some (MarshalPB ext rcp)\<rparr>
                 | None \<Rightarrow> req)
      in callAsync this ''WithdrawToken'' (WithdrawTokenRequest req))"

definition withdrawETHAsync ::
  "('n, 'a) externals \<Rightarrow> ('n, 'a) Contract \<Rightarrow> BN \<Rightarrow> Address \<Rightarrow> Address option \<Rightarrow> unit result"
where
  "withdrawETHAsync ext this amount ethereumGateway recipient =
     (let req = \<lparr>we_amount = None, we_mainnetGateway = None, we_recipient = None\<rparr>;
          req = req\<lparr>we_amount := Some (marshalBigUIntPB ext amount)\<rparr>;
          req = req\<lparr>we_mainnetGateway := Some (MarshalPB ext ethereumGateway)\<rparr>;
          req = (case recipient of
                   Some rcp \<Rightarrow> req\<lparr>we_recipient := Some (MarshalPB ext rcp)\<rparr>
                 | None \<Rightarrow> req)
      in callAsync this ''WithdrawETH'' (WithdrawETHRequest req))"

subsection \<open>Calls of the withdrawal methods from JavaScript\<close>







subsection \<open>Withdrawal receipt\<close>

text \<open>
  \<^verbatim>\<open>withdrawalReceiptAsync(owner)\<close>: the static call, then \<^verbatim>\<open>if (receipt) { ... }\<close> with
  the same \<^verbatim>\<open>switch\<close> as the listener, and \<^verbatim>\<open>return null\<close> after it. \<open>None\<close> is \<^verbatim>\<open>null\<close>.
\<close>

definition withdrawalReceiptAsync ::
  "('n, 'a) externals \<Rightarrow> ('n, 'a) Contract \<Rightarrow> Address \<Rightarrow> IWithdrawalReceipt option result"
where
  "withdrawalReceiptAsync ext this owner =
     (let tgWithdrawReceiptReq = \<lparr>wr_owner = None\<rparr>;
          tgWithdrawReceiptReq = tgWithdrawReceiptReq\<lparr>wr_owner := Some (MarshalPB ext owner)\<rparr>
      in
        and_then
          (staticCallAsync this ''WithdrawalReceipt'' (WithdrawalReceiptRequest tgWithdrawReceiptReq))
          (\<lambda>res.
            case getReceipt res of
              Some receipt \<Rightarrow>
                and_then
                  (case getTokenKind receipt of
                     ERC721 \<Rightarrow>
                       and_then (unmarshalBigUIntPB ext (getTokenId receipt)) (\<lambda>tid.
                       Inr (Some tid, None, tid))
                   | ERC721X \<Rightarrow>
                       and_then (unmarshalBigUIntPB ext (getTokenId receipt)) (\<lambda>tid.
                       and_then (unmarshalBigUIntPB ext (getTokenAmount receipt)) (\<lambda>amt.
                       Inr (Some tid, Some amt, amt)))
                   | _ \<Rightarrow>
                       and_then (unmarshalBigUIntPB ext (getTokenAmount receipt)) (\<lambda>amt.
                       Inr (None, Some amt, amt)))
                  (\<lambda>(tid, amt, val).
                and_then (UnmarshalPB ext (getTokenOwner receipt)) (\<lambda>towner.
                and_then (UnmarshalPB ext (getTokenContract receipt)) (\<lambda>contract.
                and_then (new_BN ext (getWithdrawalNonce receipt)) (\<lambda>wnonce.
                and_then (map_throwing (splitSignature ext) (getValidatorSignaturesList receipt))
                  (\<lambda>sgs.
                Inr (Some
                  \<lparr>tokenOwner = towner, tokenContract = contract,
                   tokenKind = getTokenKind receipt, tokenId = tid, tokenAmount = amt,
                   sigs = sgs, value' = val, withdrawalNonce = wnonce\<rparr>))))))
            | None \<Rightarrow> Inr None))"

section \<open>Derived definitions\<close>

subsection \<open>The switch on the token kind\<close>

text \<open>
  The \<^verbatim>\<open>switch\<close> statement that the listener and \<^verbatim>\<open>withdrawalReceiptAsync\<close> both
  contain, as a function of the message it reads: the values it leaves in the local
  variables \<^verbatim>\<open>tokenId\<close>, \<^verbatim>\<open>tokenAmount\<close> and \<^verbatim>\<open>value\<close>, or the value thrown by
  the unmarshalling. The lemmas \<open>on_event_withdrawal\<close> and \<open>withdrawalReceiptAsync_call\<close>
  below show that each of the two methods computes it.
\<close>

definition token_fields ::
  "('n, 'a) externals \<Rightarrow> ('n, 'a, 'z) TransferGatewayTokenWithdrawalSigned_scheme
     \<Rightarrow> (BN option \<times> BN option \<times> BN) result"
where
  "token_fields ext msg =
     (case getTokenKind msg of
        ERC721 \<Rightarrow>
          and_then (unmarshalBigUIntPB ext (getTokenId msg)) (\<lambda>tid.
          Inr (Some tid, None, tid))
      | ERC721X \<Rightarrow>
          and_then (unmarshalBigUIntPB ext (getTokenId msg)) (\<lambda>tid.
          and_then (unmarshalBigUIntPB ext (getTokenAmount msg)) (\<lambda>amt.
          Inr (Some tid, Some amt, amt)))
      | _ \<Rightarrow>
          and_then (unmarshalBigUIntPB ext (getTokenAmount msg)) (\<lambda>amt.
          Inr (None, Some amt, amt)))"

subsection \<open>Conditions in the words of the specification\<close>

text \<open>
  The condition under which the specification says \<^verbatim>\<open>interpret\<close> fails: a stage,
  validation or commit, with a status code other than zero and a log that contains the
  marker of a sequence-number mismatch.
\<close>

definition claimed_replay_condition :: "ITxResults \<Rightarrow> bool" where
  "claimed_replay_condition rs =
     (\<exists>st c l. (validation rs = Some st \<or> commit rs = Some st) \<and>
        code st = Some c \<and> c \<noteq> 0 \<and>
        log st = Some l \<and> sublist ''sequence number does not match'' l)"


subsection \<open>Sample collaborators and messages\<close>

text \<open>
  Concrete collaborators and messages on which the definitions are run. The sample
  unmarshalling functions throw on a field that is not set, the sample
  \<^verbatim>\<open>splitSignature\<close> throws on an empty signature and otherwise reads the first byte as
  \<open>v\<close>, the sample \<^verbatim>\<open>B64ToUint8Array\<close> knows one text, and the sample
  \<^verbatim>\<open>deserializeBinary\<close> functions throw on every input unless replaced.
\<close>

definition sample_ext :: "(nat, Address) externals" where
  "sample_ext =
     \<lparr>marshalBigUIntPB = (\<lambda>b. nat b),
      unmarshalBigUIntPB =
        (\<lambda>field. case field of
            None \<Rightarrow> Inl (JSError (JSString ''undefined''))
          | Some k \<Rightarrow> Inr (int k)),
      MarshalPB = (\<lambda>addr. addr),
      UnmarshalPB =
        (\<lambda>field. case field of
            None \<Rightarrow> Inl (JSError (JSString ''undefined''))
          | Some addr \<Rightarrow> Inr addr),
      splitSignature =
        (\<lambda>raw. case raw of
            [] \<Rightarrow> Inl (JSError (JSString ''invalid signature''))
          | b # bs \<Rightarrow> Inr \<lparr>sig_r = [], sig_s = [], sig_recoveryParam = None,
                           sig_v = Some (unat b)\<rparr>),
      new_BN = (\<lambda>k. Inr (int k)),
      B64ToUint8Array =
        (\<lambda>txt. if txt = ''AAEC'' then Inr [0, 1, 2] else Inl (JSError (JSString ''bad base64''))),
      TokenWithdrawalSigned_deserializeBinary = (\<lambda>buf. Inl (JSError (JSString ''truncated''))),
      ContractMappingConfirmed_deserializeBinary =
        (\<lambda>buf. Inl (JSError (JSString ''truncated'')))\<rparr>"

definition sample_address :: "string \<Rightarrow> Address" where
  "sample_address name = \<lparr>chainId = name, local = [1, 2, 3]\<rparr>"

definition sample_signed ::
  "TransferGatewayTokenKind \<Rightarrow> nat option \<Rightarrow> nat option
     \<Rightarrow> (nat, Address) TransferGatewayTokenWithdrawalSigned"
where
  "sample_signed k tid amt =
     \<lparr>getTokenKind = k, getTokenId = tid, getTokenAmount = amt,
      getTokenOwner = Some (sample_address ''default''),
      getTokenContract = Some (sample_address ''eth''),
      getValidatorSignaturesList = [[27, 1], [28, 2], [27, 3]]\<rparr>"

definition sample_receipt ::
  "TransferGatewayTokenKind \<Rightarrow> nat option \<Rightarrow> nat option
     \<Rightarrow> (nat, Address) TransferGatewayWithdrawalReceipt"
where
  "sample_receipt k tid amt =
     \<lparr>getTokenKind = k, getTokenId = tid, getTokenAmount = amt,
      getTokenOwner = Some (sample_address ''default''),
      getTokenContract = Some (sample_address ''eth''),
      getValidatorSignaturesList = [[27, 1], [28, 2], [27, 3]],
      getWithdrawalNonce = 5\<rparr>"

text \<open>The collaborators whose \<^verbatim>\<open>deserializeBinary\<close> yields the given message.\<close>

definition sample_event_ext ::
  "(nat, Address) TransferGatewayTokenWithdrawalSigned \<Rightarrow> (nat, Address) externals" where
  "sample_event_ext msg =
     sample_ext\<lparr>TokenWithdrawalSigned_deserializeBinary := (\<lambda>buf. Inr msg)\<rparr>"

definition sample_mapping_ext :: "(nat, Address) externals" where
  "sample_mapping_ext =
     sample_ext\<lparr>ContractMappingConfirmed_deserializeBinary :=
       (\<lambda>buf. Inr \<lparr>getForeignContract = Some (sample_address ''eth''),
                     getLocalContract = Some (sample_address ''default'')\<rparr>)\<rparr>"

text \<open>An event with the topic of a signed withdrawal.\<close>

definition sample_event :: IChainEventArgs where
  "sample_event = \<lparr>topics = Some [''event:TokenWithdrawalSigned''], data = ''AAEC''\<rparr>"

text \<open>
  A gateway whose transport accepts every transaction and answers every query with the
  stored receipt, if any.
\<close>

definition sample_contract ::
  "(nat, Address) TransferGatewayWithdrawalReceipt option \<Rightarrow> (nat, Address) Contract" where
  "sample_contract stored =
     \<lparr>callAsync = (\<lambda>method req. Inr ()),
      staticCallAsync = (\<lambda>method req. Inr \<lparr>getReceipt = stored\<rparr>)\<rparr>"

text \<open>The normalized values expected of the sample messages.\<close>

definition sample_sigs :: "Signature list" where
  "sample_sigs =
     [\<lparr>sig_r = [], sig_s = [], sig_recoveryParam = None, sig_v = Some 27\<rparr>,
      \<lparr>sig_r = [], sig_s = [], sig_recoveryParam = None, sig_v = Some 28\<rparr>,
      \<lparr>sig_r = [], sig_s = [], sig_recoveryParam = None, sig_v = Some 27\<rparr>]"

definition sample_args ::
  "TransferGatewayTokenKind \<Rightarrow> BN option \<Rightarrow> BN option \<Rightarrow> BN \<Rightarrow> ITokenWithdrawalEventArgs"
where
  "sample_args k tid amt val =
     \<lparr>tokenOwner = sample_address ''default'', tokenContract = sample_address ''eth'',
      tokenKind = k, tokenId = tid, tokenAmount = amt, sigs = sample_sigs, value' = val\<rparr>"

definition sample_normalized_receipt ::
  "TransferGatewayTokenKind \<Rightarrow> BN option \<Rightarrow> BN option \<Rightarrow> BN \<Rightarrow> IWithdrawalReceipt"
where
  "sample_normalized_receipt k tid amt val =
     \<lparr>tokenOwner = sample_address ''default'', tokenContract = sample_address ''eth'',
      tokenKind = k, tokenId = tid, tokenAmount = amt, sigs = sample_sigs, value' = val,
      withdrawalNonce = 5\<rparr>"

text \<open>
  A middleware whose client knows the sequence number 41 of one account and the sequence
  number \<open>2^53\<close> of another, and a wire encoding of the envelope: the sequence number in
  eight bytes, the most significant first, then the payload.
\<close>

definition sample_middleware :: NonceEthTxMiddleware where
  "sample_middleware =
     \<lparr>fromAddress = ''0xabc'',
      client = \<lparr>getNonce2Async =
        (\<lambda>ns addr. if ns = ''eth'' \<and> addr = ''0xabc'' then Inr 41
                    else if ns = ''eth'' \<and> addr = ''0xbig'' then Inr 9007199254740992
                    else Inl (JSError (JSString ''unknown account'')))\<rparr>\<rparr>"

definition sample_serializeBinary :: "NonceTx \<Rightarrow> bytes result" where
  "sample_serializeBinary tx =
     (if sequence tx < 2 ^ 64
      then Inr (map (\<lambda>k. of_nat (sequence tx div 256 ^ k)) [7, 6, 5, 4, 3, 2, 1, 0] @ inner tx)
      else Inl (JSError (JSString ''value out of range'')))"

section \<open>Auxiliary facts\<close>

lemma and_then_simps [simp]:
  "and_then (Inl e) f = Inl e"
  "and_then (Inr x) f = f x"
  by (simp_all add: and_then_def)

lemma and_then_eq_Inr:
  "(and_then m f = Inr y) = (\<exists>x. m = Inr x \<and> f x = Inr y)"
  by (cases m) simp_all

lemma indexOf_from_sublist:
  "0 \<le> i \<Longrightarrow> (indexOf_from str pat i \<noteq> - 1) = sublist pat str"
proof (induction str pat i rule: indexOf_from.induct)
  case (1 pat i)
  then show ?case by auto
next
  case (2 c cs pat i)
  show ?case
  proof (cases "prefix pat (c # cs)")
    case True
    with 2 show ?thesis by auto
  next
    case False
    with 2 have "(indexOf_from (c # cs) pat i \<noteq> - 1) = sublist pat cs" by simp
    also have "\<dots> = sublist pat (c # cs)" using False by (simp add: sublist_Cons_right)
    finally show ?thesis .
  qed
qed

lemma indexOf_sublist: "(indexOf str pat \<noteq> - 1) = sublist pat str"
  by (simp add: indexOf_def indexOf_from_sublist)

lemma nonce_mismatch_iff:
  "nonce_mismatch stage =
     (\<exists>st l. stage = Some st \<and> code st = Some 1 \<and> log st = Some l \<and>
        sublist ''sequence number does not match'' l)"
proof (cases stage)
  case None
  then show ?thesis by (simp add: nonce_mismatch_def)
next
  case (Some st)
  show ?thesis
  proof (cases "log st")
    case None
    with Some show ?thesis by (simp add: nonce_mismatch_def)
  next
    case (Some l)
    have "sublist ''sequence number does not match'' l \<Longrightarrow> l \<noteq> []"
      by auto
    with Some \<open>stage = Some st\<close> show ?thesis
      by (auto simp: nonce_mismatch_def indexOf_sublist)
  qed
qed

lemma HandleResults_cases:
  "HandleResults rs =
     (if nonce_mismatch (validation rs) \<or> nonce_mismatch (commit rs)
      then Inl (JSError (JSString ''Invalid tx nonce'')) else Inr rs)"
  by (simp add: HandleResults_def new_Error_def INVALID_TX_NONCE_ERROR_def)

lemma isInvalidTxNonceError_iff:
  "isInvalidTxNonceError err = (err = JSError (JSString ''Invalid tx nonce''))"
  by (cases err) (auto simp: isInvalidTxNonceError_def INVALID_TX_NONCE_ERROR_def)

lemma HandleResults_Inl:
  "HandleResults rs = Inl e \<Longrightarrow> e = JSError (JSString ''Invalid tx nonce'')"
  by (simp add: HandleResults_cases split: if_splits)

lemma bit_length_2_53: "bit_length 9007199254740992 = 54"
  by (simp add: bit_length.simps)

lemma bit_length_2_53_plus_1: "bit_length 9007199254740993 = 54"
  by (simp add: bit_length.simps)

lemma round_to_double_2_53: "round_to_double 9007199254740992 = 9007199254740992"
  unfolding round_to_double_def bit_length_2_53 by simp

lemma round_to_double_2_53_plus_1: "round_to_double 9007199254740993 = 9007199254740992"
  unfolding round_to_double_def bit_length_2_53_plus_1 by (simp add: Let_def)

lemma number_add_at_2_53: "number_add 9007199254740992 (Suc 0) = 9007199254740992"
  unfolding number_add_def using round_to_double_2_53_plus_1 by simp

lemma number_add_exact: "N < 2 ^ 53 \<Longrightarrow> number_add N (Suc 0) = Suc N"
proof (cases "N + 1 < 2 ^ 53")
  case True
  then show ?thesis by (simp add: number_add_def round_to_double_def)
next
  case False
  assume "N < 2 ^ 53"
  with False have "N + 1 = 9007199254740992" by simp
  then show ?thesis using round_to_double_2_53 by (simp add: number_add_def)
qed

lemma map_throwing_Inr:
  "(map_throwing f xs = Inr ys) = (map f xs = map Inr ys)"
proof (induction xs arbitrary: ys)
  case Nil
  then show ?case by auto
next
  case (Cons x xs)
  show ?case
  proof (cases ys)
    case Nil
    then show ?thesis by (auto simp: and_then_eq_Inr)
  next
    case (Cons y ys')
    with Cons.IH [of ys'] show ?thesis by (auto simp: and_then_eq_Inr)
  qed
qed

lemma on_event_withdrawal:
  assumes "topics ev = Some (t # ts)" "t = tokenWithdrawalSignedEventTopic"
    and "B64ToUint8Array ext (data ev) = Inr buf"
    and "TokenWithdrawalSigned_deserializeBinary ext buf = Inr msg"
  shows "on_event ext ev =
     and_then (token_fields ext msg) (\<lambda>(tid, amt, val).
     and_then (UnmarshalPB ext (getTokenOwner msg)) (\<lambda>owner.
     and_then (UnmarshalPB ext (getTokenContract msg)) (\<lambda>contract.
     and_then (map_throwing (splitSignature ext) (getValidatorSignaturesList msg)) (\<lambda>sgs.
     Inr [(EVENT_TOKEN_WITHDRAWAL,
           TokenWithdrawal
             \<lparr>tokenOwner = owner, tokenContract = contract, tokenKind = getTokenKind msg,
              tokenId = tid, tokenAmount = amt, sigs = sgs, value' = val\<rparr>)]))))"
  using assms by (simp add: on_event_def token_fields_def)

lemma on_event_withdrawal_Inr:
  assumes "topics ev = Some (t # ts)" "t = tokenWithdrawalSignedEventTopic"
    and "B64ToUint8Array ext (data ev) = Inr buf"
    and "TokenWithdrawalSigned_deserializeBinary ext buf = Inr msg"
    and "on_event ext ev = Inr out"
  shows "\<exists>n. out = [(EVENT_TOKEN_WITHDRAWAL, TokenWithdrawal n)] \<and>
           token_fields ext msg = Inr (tokenId n, tokenAmount n, value' n) \<and>
           UnmarshalPB ext (getTokenOwner msg) = Inr (tokenOwner n) \<and>
           UnmarshalPB ext (getTokenContract msg) = Inr (tokenContract n) \<and>
           tokenKind n = getTokenKind msg \<and>
           map_throwing (splitSignature ext) (getValidatorSignaturesList msg) = Inr (sigs n)"
  using assms(5) unfolding on_event_withdrawal [OF assms(1-4)]
  by (auto simp: and_then_eq_Inr)

lemma withdrawalReceiptAsync_call:
  assumes "staticCallAsync this ''WithdrawalReceipt''
             (WithdrawalReceiptRequest \<lparr>wr_owner = Some (MarshalPB ext owner)\<rparr>) = Inr res"
  shows "withdrawalReceiptAsync ext this owner =
     (case getReceipt res of
        None \<Rightarrow> Inr None
      | Some receipt \<Rightarrow>
          and_then (token_fields ext receipt) (\<lambda>(tid, amt, val).
          and_then (UnmarshalPB ext (getTokenOwner receipt)) (\<lambda>towner.
          and_then (UnmarshalPB ext (getTokenContract receipt)) (\<lambda>contract.
          and_then (new_BN ext (getWithdrawalNonce receipt)) (\<lambda>wnonce.
          and_then (map_throwing (splitSignature ext) (getValidatorSignaturesList receipt))
            (\<lambda>sgs.
          Inr (Some
                \<lparr>tokenOwner = towner, tokenContract = contract,
                 tokenKind = getTokenKind receipt, tokenId = tid, tokenAmount = amt,
                 sigs = sgs, value' = val, withdrawalNonce = wnonce\<rparr>)))))))"
  using assms by (simp add: withdrawalReceiptAsync_def token_fields_def split: option.splits)

lemma withdrawalReceiptAsync_Inr:
  assumes "staticCallAsync this ''WithdrawalReceipt''
             (WithdrawalReceiptRequest \<lparr>wr_owner = Some (MarshalPB ext owner)\<rparr>) = Inr res"
    and "getReceipt res = Some receipt"
    and "withdrawalReceiptAsync ext this owner = Inr out"
  shows "\<exists>n. out = Some n \<and>
           token_fields ext receipt = Inr (tokenId n, tokenAmount n, value' n) \<and>
           UnmarshalPB ext (getTokenOwner receipt) = Inr (tokenOwner n) \<and>
           UnmarshalPB ext (getTokenContract receipt) = Inr (tokenContract n) \<and>
           tokenKind n = getTokenKind receipt \<and>
           new_BN ext (getWithdrawalNonce receipt) = Inr (withdrawalNonce n) \<and>
           map_throwing (splitSignature ext) (getValidatorSignaturesList receipt) = Inr (sigs n)"
  using assms(3) unfolding withdrawalReceiptAsync_call [OF assms(1)] assms(2)
  by (auto simp: and_then_eq_Inr)

lemma token_fields_default:
  "getTokenKind m \<noteq> ERC721 \<Longrightarrow> getTokenKind m \<noteq> ERC721X \<Longrightarrow>
   token_fields ext m =
     and_then (unmarshalBigUIntPB ext (getTokenAmount m)) (\<lambda>amt. Inr (None, Some amt, amt))"
  by (cases "getTokenKind m") (simp_all add: token_fields_def)

lemma and_then_assoc:
  "and_then (and_then m f) g = and_then m (\<lambda>x. and_then (f x) g)"
  by (cases m) simp_all

lemma token_fields_ERC721:
  "getTokenKind m = ERC721 \<Longrightarrow>
   token_fields ext m =
     and_then (unmarshalBigUIntPB ext (getTokenId m)) (\<lambda>tid. Inr (Some tid, None, tid))"
  by (simp add: token_fields_def)

lemma token_fields_ERC721X:
  "getTokenKind m = ERC721X \<Longrightarrow>
   token_fields ext m =
     and_then (unmarshalBigUIntPB ext (getTokenId m)) (\<lambda>tid.
     and_then (unmarshalBigUIntPB ext (getTokenAmount m)) (\<lambda>amt.
     Inr (Some tid, Some amt, amt)))"
  by (simp add: token_fields_def)

lemma map_Inr_nth:
  assumes "map f xs = map Inr ys"
  shows "length ys = length xs \<and> (\<forall>i<length ys. f (xs ! i) = Inr (ys ! i))"
proof -
  from assms have len: "length xs = length ys" by (rule map_eq_imp_length_eq)
  { fix i assume "i < length ys"
    with len have "f (xs ! i) = map f xs ! i" by simp
    also from assms \<open>i < length ys\<close> have "\<dots> = Inr (ys ! i)" by simp
    finally have "f (xs ! i) = Inr (ys ! i)" . }
  with len show ?thesis by simp
qed

lemma topics_distinct: "tokenWithdrawalSignedEventTopic \<noteq> contractMappingConfirmedEventTopic"
  by (simp add: tokenWithdrawalSignedEventTopic_def contractMappingConfirmedEventTopic_def)

lemma on_event_ignored:
  "topics ev = None \<or> topics ev = Some [] \<or>
   (\<exists>t ts. topics ev = Some (t # ts) \<and> t \<noteq> tokenWithdrawalSignedEventTopic \<and>
      t \<noteq> contractMappingConfirmedEventTopic) \<Longrightarrow>
   on_event ext ev = Inr []"
  by (auto simp: on_event_def)

lemma on_event_matched:
  assumes "topics ev = Some (t # ts)"
    and "t = tokenWithdrawalSignedEventTopic \<or> t = contractMappingConfirmedEventTopic"
  shows "on_event ext ev \<noteq> Inr []"
    and "B64ToUint8Array ext (data ev) = Inl e \<Longrightarrow> on_event ext ev = Inl e"
  using assms topics_distinct
  by (auto simp: on_event_def and_then_eq_Inr split: prod.splits)

text \<open>The hypotheses of the decoders at the sample event and the sample gateway.\<close>

lemma sample_event_topics:
  "topics sample_event = Some (tokenWithdrawalSignedEventTopic # [])"
  by (simp add: sample_event_def tokenWithdrawalSignedEventTopic_def)

lemma sample_event_payload:
  "B64ToUint8Array (sample_event_ext msg) (data sample_event) = Inr [0, 1, 2]"
  by (simp add: sample_event_def sample_event_ext_def sample_ext_def)

lemma sample_event_message:
  "TokenWithdrawalSigned_deserializeBinary (sample_event_ext msg) [0, 1, 2] = Inr msg"
  by (simp add: sample_event_ext_def)

lemma sample_contract_answer:
  "staticCallAsync (sample_contract stored) ''WithdrawalReceipt''
     (WithdrawalReceiptRequest \<lparr>wr_owner = Some (MarshalPB sample_ext (sample_address ''default''))\<rparr>)
     = Inr \<lparr>getReceipt = stored\<rparr>"
  by (simp add: sample_contract_def)

text \<open>Two runs on the sample messages: scenarios 5 and 4 of the specification.\<close>

lemma sample_event_run:
  "on_event (sample_event_ext (sample_signed ERC721X (Some 3) (Some 500))) sample_event =
     Inr [(EVENT_TOKEN_WITHDRAWAL, TokenWithdrawal (sample_args ERC721X (Some 3) (Some 500) 500))]"
  by (simp add: on_event_def sample_event_def sample_event_ext_def sample_ext_def
      sample_signed_def sample_args_def sample_sigs_def tokenWithdrawalSignedEventTopic_def)

lemma sample_receipt_run:
  "withdrawalReceiptAsync sample_ext (sample_contract (Some (sample_receipt ERC721 (Some 7) None)))
     (sample_address ''default'') =
     Inr (Some (sample_normalized_receipt ERC721 (Some 7) None 7))"
  by (simp add: withdrawalReceiptAsync_def sample_contract_def sample_ext_def sample_receipt_def
      sample_normalized_receipt_def sample_sigs_def)

section \<open>Sequencer middleware: results\<close>

text \<open>
  Claim C1, as amended. \<^verbatim>\<open>HandleResults\<close> throws the error with the message
  \<^verbatim>\<open>Invalid tx nonce\<close> if and only if the validation stage or the commit stage is
  present, has the status code \<open>1\<close> exactly, and has a log that contains
  \<^verbatim>\<open>sequence number does not match\<close> as a contiguous part (\<open>sublist\<close>); in every
  other case it returns the result set it was given, unchanged. That covers the result
  set with both stages absent and the one whose stage failed for another reason.
\<close>

theorem HandleResults_replay_conflict:
  "HandleResults rs =
     (if \<exists>st l. (validation rs = Some st \<or> commit rs = Some st) \<and> code st = Some 1 \<and>
           log st = Some l \<and> sublist ''sequence number does not match'' l
      then Inl (JSError (JSString ''Invalid tx nonce''))
      else Inr rs)"
  unfolding HandleResults_cases nonce_mismatch_iff by (rule if_cong) auto

text \<open>
  Scenarios 2 and 3 of the specification, and the result set with no stage, by the
  theorem above.
\<close>

theorem HandleResults_replay_conflict_witness:
  "HandleResults
     \<lparr>validation = None,
      commit = Some \<lparr>code = Some 1, log = Some ''tx sequence number does not match''\<rparr>\<rparr>
     = Inl (JSError (JSString ''Invalid tx nonce'')) \<and>
   HandleResults
     \<lparr>validation = Some \<lparr>code = Some 0, log = None\<rparr>,
      commit = Some \<lparr>code = Some 1, log = Some ''insufficient balance''\<rparr>\<rparr>
     = Inr \<lparr>validation = Some \<lparr>code = Some 0, log = None\<rparr>,
           commit = Some \<lparr>code = Some 1, log = Some ''insufficient balance''\<rparr>\<rparr> \<and>
   HandleResults \<lparr>validation = None, commit = None\<rparr> = Inr \<lparr>validation = None, commit = None\<rparr>"
proof -
  have marker: "sublist ''sequence number does not match'' ''tx sequence number does not match''"
    unfolding sublist_def by (rule exI [of _ "''tx ''"], rule exI [of _ "[]"]) simp
  have other: "\<not> sublist ''sequence number does not match'' ''insufficient balance''"
    by (simp add: indexOf_sublist [symmetric] indexOf_def)
  show ?thesis
    unfolding HandleResults_replay_conflict using marker other by auto
qed

text \<open>
  The claim C1 as the specification states it asks for a failure on every status code
  other than zero. A validation stage with the code \<open>2\<close> and the marker in its log meets
  the stated condition, and \<^verbatim>\<open>HandleResults\<close> returns the result set: the guard of the
  source is \<^verbatim>\<open>code === 1\<close>.
\<close>

theorem HandleResults_code_two_counterexample:
  "claimed_replay_condition
     \<lparr>validation = Some \<lparr>code = Some 2, log = Some ''sequence number does not match''\<rparr>,
      commit = None\<rparr> \<and>
   HandleResults
     \<lparr>validation = Some \<lparr>code = Some 2, log = Some ''sequence number does not match''\<rparr>,
      commit = None\<rparr> =
   Inr \<lparr>validation = Some \<lparr>code = Some 2, log = Some ''sequence number does not match''\<rparr>,
        commit = None\<rparr>"
  by (simp add: claimed_replay_condition_def HandleResults_cases nonce_mismatch_def)

text \<open>
  Claim C2, as amended. When the client answers \<open>N\<close> for the pair of the namespace
  \<^verbatim>\<open>eth\<close> and the address of the middleware, and \<open>N\<close> is below \<open>2^53\<close>, \<^verbatim>\<open>Handle\<close>
  hands to \<^verbatim>\<open>serializeBinary\<close> the envelope whose sequence number is \<open>N + 1\<close> and whose
  inner payload is the payload it was given, and returns what the encoding returns.
\<close>

theorem Handle_next_sequence:
  "N < 2 ^ 53 \<Longrightarrow>
   getNonce2Async (client this) ''eth'' (fromAddress this) = Inr N \<Longrightarrow>
   Handle serializeBinary this txData =
     serializeBinary \<lparr>inner = txData, sequence = N + 1\<rparr>"
  by (simp add: Handle_def number_add_exact)

text \<open>Scenario 1 of the specification: the current sequence number 41 gives 42.\<close>

theorem Handle_next_sequence_witness:
  "(41 :: nat) < 2 ^ 53 \<and>
   getNonce2Async (client sample_middleware) ''eth'' (fromAddress sample_middleware) = Inr 41 \<and>
   Handle sample_serializeBinary sample_middleware [1, 2, 3] =
     sample_serializeBinary \<lparr>inner = [1, 2, 3], sequence = 42\<rparr> \<and>
   sample_serializeBinary \<lparr>inner = [1, 2, 3], sequence = 42\<rparr> =
     Inr [0, 0, 0, 0, 0, 0, 0, 42, 1, 2, 3]"
proof -
  have small: "(41 :: nat) < 2 ^ 53" by simp
  have current:
    "getNonce2Async (client sample_middleware) ''eth'' (fromAddress sample_middleware) = Inr 41"
    by (simp add: sample_middleware_def)
  from Handle_next_sequence [OF small current, of sample_serializeBinary "[1, 2, 3]"]
  have "Handle sample_serializeBinary sample_middleware [1, 2, 3] =
     sample_serializeBinary \<lparr>inner = [1, 2, 3], sequence = 42\<rparr>"
    by simp
  with small current show ?thesis by (simp add: sample_serializeBinary_def)
qed

text \<open>
  The claim C2 as the specification states it holds for every state of the reader. At
  the sequence number \<open>2^53 = 9007199254740992\<close> the sum \<^verbatim>\<open>nonce + 1\<close> is a tie between
  \<open>2^53\<close> and \<open>2^53 + 2\<close> and rounds to \<open>2^53\<close>: the envelope carries the current
  sequence number, not its successor, whatever the encoding and the payload.
\<close>

theorem Handle_at_2_53_counterexample:
  "getNonce2Async (client (sample_middleware\<lparr>fromAddress := ''0xbig''\<rparr>)) ''eth''
     (fromAddress (sample_middleware\<lparr>fromAddress := ''0xbig''\<rparr>)) = Inr 9007199254740992 \<and>
   (\<forall>serializeBinary txData.
      Handle serializeBinary (sample_middleware\<lparr>fromAddress := ''0xbig''\<rparr>) txData =
        serializeBinary \<lparr>inner = txData, sequence = 9007199254740992\<rparr>) \<and>
   Handle sample_serializeBinary (sample_middleware\<lparr>fromAddress := ''0xbig''\<rparr>) [1, 2, 3] =
     Inr [0, 32, 0, 0, 0, 0, 0, 0, 1, 2, 3] \<and>
   sample_serializeBinary \<lparr>inner = [1, 2, 3], sequence = 9007199254740992 + 1\<rparr> =
     Inr [0, 32, 0, 0, 0, 0, 0, 1, 1, 2, 3]"
  by (simp add: Handle_def sample_middleware_def number_add_at_2_53 sample_serializeBinary_def)

text \<open>
  Claim C9. \<^verbatim>\<open>isInvalidTxNonceError\<close> holds of a value exactly when the value is an
  instance of \<^verbatim>\<open>Error\<close> whose message is the constant \<^verbatim>\<open>Invalid tx nonce\<close>, that is,
  exactly for the value that \<^verbatim>\<open>new Error(INVALID_TX_NONCE_ERROR)\<close> makes; and whatever
  \<^verbatim>\<open>HandleResults\<close> throws is that value, so the classifier holds of it.
\<close>

theorem HandleResults_throws_only_invalid_nonce:
  "(isInvalidTxNonceError err =
      (instanceof_Error err \<and> get_message err = JSString ''Invalid tx nonce'')) \<and>
   (isInvalidTxNonceError err = (err = new_Error INVALID_TX_NONCE_ERROR)) \<and>
   (HandleResults rs = Inl e \<longrightarrow>
      e = new_Error INVALID_TX_NONCE_ERROR \<and> isInvalidTxNonceError e)"
proof (intro conjI impI)
  show "isInvalidTxNonceError err =
      (instanceof_Error err \<and> get_message err = JSString ''Invalid tx nonce'')"
    by (simp add: isInvalidTxNonceError_def INVALID_TX_NONCE_ERROR_def)
  show "isInvalidTxNonceError err = (err = new_Error INVALID_TX_NONCE_ERROR)"
    by (simp add: isInvalidTxNonceError_iff new_Error_def INVALID_TX_NONCE_ERROR_def)
  assume "HandleResults rs = Inl e"
  then have e: "e = JSError (JSString ''Invalid tx nonce'')"
    by (rule HandleResults_Inl)
  then show "e = new_Error INVALID_TX_NONCE_ERROR"
    by (simp add: new_Error_def INVALID_TX_NONCE_ERROR_def)
  from e show "isInvalidTxNonceError e"
    by (simp add: isInvalidTxNonceError_iff)
qed

text \<open>A result set on which \<^verbatim>\<open>HandleResults\<close> throws, and the classifier on what it throws.\<close>

theorem HandleResults_throws_only_invalid_nonce_witness:
  "HandleResults
     \<lparr>validation = None,
      commit = Some \<lparr>code = Some 1, log = Some ''tx sequence number does not match''\<rparr>\<rparr>
     = Inl (new_Error INVALID_TX_NONCE_ERROR) \<and>
   isInvalidTxNonceError (new_Error INVALID_TX_NONCE_ERROR)"
proof -
  let ?rs = "\<lparr>validation = None,
      commit = Some \<lparr>code = Some 1, log = Some ''tx sequence number does not match''\<rparr>\<rparr>"
  have thrown: "HandleResults ?rs = Inl (new_Error INVALID_TX_NONCE_ERROR)"
    by (simp add: HandleResults_def nonce_mismatch_def indexOf_def)
  from HandleResults_throws_only_invalid_nonce
         [of "new_Error INVALID_TX_NONCE_ERROR" ?rs "new_Error INVALID_TX_NONCE_ERROR"]
  have "HandleResults ?rs = Inl (new_Error INVALID_TX_NONCE_ERROR) \<longrightarrow>
        isInvalidTxNonceError (new_Error INVALID_TX_NONCE_ERROR)"
    by blast
  with thrown show ?thesis by blast
qed

section \<open>Receipt and event interpreter: results\<close>

text \<open>
  Claim C3. For an event of the topic \<^verbatim>\<open>event:TokenWithdrawalSigned\<close> whose payload
  deserializes, and for a stored receipt, the outcome of the decoder is fixed by the
  token kind. For \<open>ERC721\<close> the identifier is the only number that is unmarshalled:
  \<open>tokenId\<close> and \<open>value\<close> are the identifier and \<open>tokenAmount\<close> stays unset. For
  \<open>ERC721X\<close> the identifier and then the amount are unmarshalled: \<open>tokenId\<close> is the
  identifier, \<open>tokenAmount\<close> and \<open>value\<close> are the amount. For \<open>ERC20\<close> and \<open>ETH\<close>
  the amount is the only number that is unmarshalled: \<open>tokenAmount\<close> and \<open>value\<close> are
  the amount and \<open>tokenId\<close> stays unset. In each case the decoder throws only what the
  unmarshalling of a field it reads throws, and otherwise hands out the normalized value.
\<close>

theorem decode_fields_by_kind:
  "(topics ev = Some (t # ts) \<longrightarrow> t = tokenWithdrawalSignedEventTopic \<longrightarrow>
    B64ToUint8Array ext (data ev) = Inr buf \<longrightarrow>
    TokenWithdrawalSigned_deserializeBinary ext buf = Inr msg \<longrightarrow>
      (getTokenKind msg = ERC721 \<longrightarrow>
         on_event ext ev =
           and_then (unmarshalBigUIntPB ext (getTokenId msg)) (\<lambda>tid.
           and_then (UnmarshalPB ext (getTokenOwner msg)) (\<lambda>towner.
           and_then (UnmarshalPB ext (getTokenContract msg)) (\<lambda>contract.
           and_then (map_throwing (splitSignature ext) (getValidatorSignaturesList msg)) (\<lambda>sgs.
           Inr [(EVENT_TOKEN_WITHDRAWAL,
                 TokenWithdrawal
                   \<lparr>tokenOwner = towner, tokenContract = contract, tokenKind = ERC721,
                    tokenId = Some tid, tokenAmount = None, sigs = sgs, value' = tid\<rparr>)]))))) \<and>
      (getTokenKind msg = ERC721X \<longrightarrow>
         on_event ext ev =
           and_then (unmarshalBigUIntPB ext (getTokenId msg)) (\<lambda>tid.
           and_then (unmarshalBigUIntPB ext (getTokenAmount msg)) (\<lambda>amt.
           and_then (UnmarshalPB ext (getTokenOwner msg)) (\<lambda>towner.
           and_then (UnmarshalPB ext (getTokenContract msg)) (\<lambda>contract.
           and_then (map_throwing (splitSignature ext) (getValidatorSignaturesList msg)) (\<lambda>sgs.
           Inr [(EVENT_TOKEN_WITHDRAWAL,
                 TokenWithdrawal
                   \<lparr>tokenOwner = towner, tokenContract = contract, tokenKind = ERC721X,
                    tokenId = Some tid, tokenAmount = Some amt, sigs = sgs,
                    value' = amt\<rparr>)])))))) \<and>
      (getTokenKind msg = ERC20 \<or> getTokenKind msg = ETH \<longrightarrow>
         on_event ext ev =
           and_then (unmarshalBigUIntPB ext (getTokenAmount msg)) (\<lambda>amt.
           and_then (UnmarshalPB ext (getTokenOwner msg)) (\<lambda>towner.
           and_then (UnmarshalPB ext (getTokenContract msg)) (\<lambda>contract.
           and_then (map_throwing (splitSignature ext) (getValidatorSignaturesList msg)) (\<lambda>sgs.
           Inr [(EVENT_TOKEN_WITHDRAWAL,
                 TokenWithdrawal
                   \<lparr>tokenOwner = towner, tokenContract = contract,
                    tokenKind = getTokenKind msg,
                    tokenId = None, tokenAmount = Some amt, sigs = sgs, value' = amt\<rparr>)])))))) \<and>
   (staticCallAsync gw ''WithdrawalReceipt''
      (WithdrawalReceiptRequest \<lparr>wr_owner = Some (MarshalPB ext owner)\<rparr>) = Inr res \<longrightarrow>
    getReceipt res = Some receipt \<longrightarrow>
      (getTokenKind receipt = ERC721 \<longrightarrow>
         withdrawalReceiptAsync ext gw owner =
           and_then (unmarshalBigUIntPB ext (getTokenId receipt)) (\<lambda>tid.
           and_then (UnmarshalPB ext (getTokenOwner receipt)) (\<lambda>towner.
           and_then (UnmarshalPB ext (getTokenContract receipt)) (\<lambda>contract.
           and_then (new_BN ext (getWithdrawalNonce receipt)) (\<lambda>wnonce.
           and_then (map_throwing (splitSignature ext) (getValidatorSignaturesList receipt))
             (\<lambda>sgs.
           Inr (Some
                 \<lparr>tokenOwner = towner, tokenContract = contract, tokenKind = ERC721,
                  tokenId = Some tid, tokenAmount = None, sigs = sgs, value' = tid,
                  withdrawalNonce = wnonce\<rparr>))))))) \<and>
      (getTokenKind receipt = ERC721X \<longrightarrow>
         withdrawalReceiptAsync ext gw owner =
           and_then (unmarshalBigUIntPB ext (getTokenId receipt)) (\<lambda>tid.
           and_then (unmarshalBigUIntPB ext (getTokenAmount receipt)) (\<lambda>amt.
           and_then (UnmarshalPB ext (getTokenOwner receipt)) (\<lambda>towner.
           and_then (UnmarshalPB ext (getTokenContract receipt)) (\<lambda>contract.
           and_then (new_BN ext (getWithdrawalNonce receipt)) (\<lambda>wnonce.
           and_then (map_throwing (splitSignature ext) (getValidatorSignaturesList receipt))
             (\<lambda>sgs.
           Inr (Some
                 \<lparr>tokenOwner = towner, tokenContract = contract, tokenKind = ERC721X,
                  tokenId = Some tid, tokenAmount = Some amt, sigs = sgs, value' = amt,
                  withdrawalNonce = wnonce\<rparr>)))))))) \<and>
      (getTokenKind receipt = ERC20 \<or> getTokenKind receipt = ETH \<longrightarrow>
         withdrawalReceiptAsync ext gw owner =
           and_then (unmarshalBigUIntPB ext (getTokenAmount receipt)) (\<lambda>amt.
           and_then (UnmarshalPB ext (getTokenOwner receipt)) (\<lambda>towner.
           and_then (UnmarshalPB ext (getTokenContract receipt)) (\<lambda>contract.
           and_then (new_BN ext (getWithdrawalNonce receipt)) (\<lambda>wnonce.
           and_then (map_throwing (splitSignature ext) (getValidatorSignaturesList receipt))
             (\<lambda>sgs.
           Inr (Some
                 \<lparr>tokenOwner = towner, tokenContract = contract,
                  tokenKind = getTokenKind receipt,
                  tokenId = None, tokenAmount = Some amt, sigs = sgs, value' = amt,
                  withdrawalNonce = wnonce\<rparr>))))))))"
proof (intro conjI impI)
  assume ev: "topics ev = Some (t # ts)" "t = tokenWithdrawalSignedEventTopic"
    "B64ToUint8Array ext (data ev) = Inr buf"
    "TokenWithdrawalSigned_deserializeBinary ext buf = Inr msg"
  note listener = on_event_withdrawal [OF ev]
  { assume "getTokenKind msg = ERC721"
    then show "on_event ext ev =
           and_then (unmarshalBigUIntPB ext (getTokenId msg)) (\<lambda>tid.
           and_then (UnmarshalPB ext (getTokenOwner msg)) (\<lambda>towner.
           and_then (UnmarshalPB ext (getTokenContract msg)) (\<lambda>contract.
           and_then (map_throwing (splitSignature ext) (getValidatorSignaturesList msg)) (\<lambda>sgs.
           Inr [(EVENT_TOKEN_WITHDRAWAL,
                 TokenWithdrawal
                   \<lparr>tokenOwner = towner, tokenContract = contract, tokenKind = ERC721,
                    tokenId = Some tid, tokenAmount = None, sigs = sgs, value' = tid\<rparr>)]))))"
      by (simp add: listener token_fields_ERC721 and_then_assoc) }
  { assume "getTokenKind msg = ERC721X"
    then show "on_event ext ev =
           and_then (unmarshalBigUIntPB ext (getTokenId msg)) (\<lambda>tid.
           and_then (unmarshalBigUIntPB ext (getTokenAmount msg)) (\<lambda>amt.
           and_then (UnmarshalPB ext (getTokenOwner msg)) (\<lambda>towner.
           and_then (UnmarshalPB ext (getTokenContract msg)) (\<lambda>contract.
           and_then (map_throwing (splitSignature ext) (getValidatorSignaturesList msg)) (\<lambda>sgs.
           Inr [(EVENT_TOKEN_WITHDRAWAL,
                 TokenWithdrawal
                   \<lparr>tokenOwner = towner, tokenContract = contract, tokenKind = ERC721X,
                    tokenId = Some tid, tokenAmount = Some amt, sigs = sgs,
                    value' = amt\<rparr>)])))))"
      by (simp add: listener token_fields_ERC721X and_then_assoc) }
  { assume "getTokenKind msg = ERC20 \<or> getTokenKind msg = ETH"
    then have "getTokenKind msg \<noteq> ERC721" "getTokenKind msg \<noteq> ERC721X" by auto
    then show "on_event ext ev =
           and_then (unmarshalBigUIntPB ext (getTokenAmount msg)) (\<lambda>amt.
           and_then (UnmarshalPB ext (getTokenOwner msg)) (\<lambda>towner.
           and_then (UnmarshalPB ext (getTokenContract msg)) (\<lambda>contract.
           and_then (map_throwing (splitSignature ext) (getValidatorSignaturesList msg)) (\<lambda>sgs.
           Inr [(EVENT_TOKEN_WITHDRAWAL,
                 TokenWithdrawal
                   \<lparr>tokenOwner = towner, tokenContract = contract,
                    tokenKind = getTokenKind msg,
                    tokenId = None, tokenAmount = Some amt, sigs = sgs, value' = amt\<rparr>)]))))"
      by (simp add: listener token_fields_default and_then_assoc) }
next
  assume call: "staticCallAsync gw ''WithdrawalReceipt''
      (WithdrawalReceiptRequest \<lparr>wr_owner = Some (MarshalPB ext owner)\<rparr>) = Inr res"
    and present: "getReceipt res = Some receipt"
  note query = withdrawalReceiptAsync_call [OF call]
  { assume "getTokenKind receipt = ERC721"
    then show "withdrawalReceiptAsync ext gw owner =
           and_then (unmarshalBigUIntPB ext (getTokenId receipt)) (\<lambda>tid.
           and_then (UnmarshalPB ext (getTokenOwner receipt)) (\<lambda>towner.
           and_then (UnmarshalPB ext (getTokenContract receipt)) (\<lambda>contract.
           and_then (new_BN ext (getWithdrawalNonce receipt)) (\<lambda>wnonce.
           and_then (map_throwing (splitSignature ext) (getValidatorSignaturesList receipt))
             (\<lambda>sgs.
           Inr (Some
                 \<lparr>tokenOwner = towner, tokenContract = contract, tokenKind = ERC721,
                  tokenId = Some tid, tokenAmount = None, sigs = sgs, value' = tid,
                  withdrawalNonce = wnonce\<rparr>))))))"
      by (simp add: query present token_fields_ERC721 and_then_assoc) }
  { assume "getTokenKind receipt = ERC721X"
    then show "withdrawalReceiptAsync ext gw owner =
           and_then (unmarshalBigUIntPB ext (getTokenId receipt)) (\<lambda>tid.
           and_then (unmarshalBigUIntPB ext (getTokenAmount receipt)) (\<lambda>amt.
           and_then (UnmarshalPB ext (getTokenOwner receipt)) (\<lambda>towner.
           and_then (UnmarshalPB ext (getTokenContract receipt)) (\<lambda>contract.
           and_then (new_BN ext (getWithdrawalNonce receipt)) (\<lambda>wnonce.
           and_then (map_throwing (splitSignature ext) (getValidatorSignaturesList receipt))
             (\<lambda>sgs.
           Inr (Some
                 \<lparr>tokenOwner = towner, tokenContract = contract, tokenKind = ERC721X,
                  tokenId = Some tid, tokenAmount = Some amt, sigs = sgs, value' = amt,
                  withdrawalNonce = wnonce\<rparr>)))))))"
      by (simp add: query present token_fields_ERC721X and_then_assoc) }
  { assume "getTokenKind receipt = ERC20 \<or> getTokenKind receipt = ETH"
    then have "getTokenKind receipt \<noteq> ERC721" "getTokenKind receipt \<noteq> ERC721X" by auto
    then show "withdrawalReceiptAsync ext gw owner =
           and_then (unmarshalBigUIntPB ext (getTokenAmount receipt)) (\<lambda>amt.
           and_then (UnmarshalPB ext (getTokenOwner receipt)) (\<lambda>towner.
           and_then (UnmarshalPB ext (getTokenContract receipt)) (\<lambda>contract.
           and_then (new_BN ext (getWithdrawalNonce receipt)) (\<lambda>wnonce.
           and_then (map_throwing (splitSignature ext) (getValidatorSignaturesList receipt))
             (\<lambda>sgs.
           Inr (Some
                 \<lparr>tokenOwner = towner, tokenContract = contract,
                  tokenKind = getTokenKind receipt,
                  tokenId = None, tokenAmount = Some amt, sigs = sgs, value' = amt,
                  withdrawalNonce = wnonce\<rparr>))))))"
      by (simp add: query present token_fields_default and_then_assoc) }
qed

text \<open>
  The four kinds through both decoders. The sample unmarshalling throws on a field that
  is not set: the \<open>ERC721\<close> messages carry no amount and the \<open>ERC20\<close> and \<open>ETH\<close>
  messages no identifier, and all of them decode. Scenarios 4 and 5 of the specification
  are among the runs.
\<close>

theorem decode_fields_by_kind_witness:
  "on_event (sample_event_ext (sample_signed ERC721 (Some 7) None)) sample_event =
     Inr [(EVENT_TOKEN_WITHDRAWAL, TokenWithdrawal (sample_args ERC721 (Some 7) None 7))] \<and>
   on_event (sample_event_ext (sample_signed ERC721X (Some 3) (Some 500))) sample_event =
     Inr [(EVENT_TOKEN_WITHDRAWAL,
           TokenWithdrawal (sample_args ERC721X (Some 3) (Some 500) 500))] \<and>
   on_event (sample_event_ext (sample_signed ERC20 None (Some 90))) sample_event =
     Inr [(EVENT_TOKEN_WITHDRAWAL, TokenWithdrawal (sample_args ERC20 None (Some 90) 90))] \<and>
   on_event (sample_event_ext (sample_signed ETH None (Some 1000))) sample_event =
     Inr [(EVENT_TOKEN_WITHDRAWAL, TokenWithdrawal (sample_args ETH None (Some 1000) 1000))] \<and>
   withdrawalReceiptAsync sample_ext (sample_contract (Some (sample_receipt ERC721 (Some 7) None)))
     (sample_address ''default'') =
     Inr (Some (sample_normalized_receipt ERC721 (Some 7) None 7)) \<and>
   withdrawalReceiptAsync sample_ext
     (sample_contract (Some (sample_receipt ERC721X (Some 3) (Some 500))))
     (sample_address ''default'') =
     Inr (Some (sample_normalized_receipt ERC721X (Some 3) (Some 500) 500)) \<and>
   withdrawalReceiptAsync sample_ext (sample_contract (Some (sample_receipt ERC20 None (Some 90))))
     (sample_address ''default'') =
     Inr (Some (sample_normalized_receipt ERC20 None (Some 90) 90)) \<and>
   withdrawalReceiptAsync sample_ext (sample_contract (Some (sample_receipt ETH None (Some 1000))))
     (sample_address ''default'') =
     Inr (Some (sample_normalized_receipt ETH None (Some 1000) 1000))"
proof -
  note event = decode_fields_by_kind [THEN conjunct1, rule_format,
      OF sample_event_topics refl sample_event_payload sample_event_message]
  have present: "getReceipt \<lparr>getReceipt = Some rc\<rparr> = Some rc"
    for rc :: "(nat, Address) TransferGatewayWithdrawalReceipt"
    by simp
  note stored = decode_fields_by_kind [THEN conjunct2, rule_format,
      OF sample_contract_answer present]
  note ev_defs = sample_event_ext_def sample_ext_def sample_signed_def sample_args_def
    sample_sigs_def
  note rc_defs = sample_ext_def sample_receipt_def sample_normalized_receipt_def sample_sigs_def
  have e1: "on_event (sample_event_ext (sample_signed ERC721 (Some 7) None)) sample_event =
     Inr [(EVENT_TOKEN_WITHDRAWAL, TokenWithdrawal (sample_args ERC721 (Some 7) None 7))]"
    by (subst event [THEN conjunct1, rule_format]) (simp_all add: ev_defs)
  have e2: "on_event (sample_event_ext (sample_signed ERC721X (Some 3) (Some 500))) sample_event =
     Inr [(EVENT_TOKEN_WITHDRAWAL,
           TokenWithdrawal (sample_args ERC721X (Some 3) (Some 500) 500))]"
    by (subst event [THEN conjunct2, THEN conjunct1, rule_format]) (simp_all add: ev_defs)
  have e3: "on_event (sample_event_ext (sample_signed ERC20 None (Some 90))) sample_event =
     Inr [(EVENT_TOKEN_WITHDRAWAL, TokenWithdrawal (sample_args ERC20 None (Some 90) 90))]"
    by (subst event [THEN conjunct2, THEN conjunct2, rule_format]) (simp_all add: ev_defs)
  have e4: "on_event (sample_event_ext (sample_signed ETH None (Some 1000))) sample_event =
     Inr [(EVENT_TOKEN_WITHDRAWAL, TokenWithdrawal (sample_args ETH None (Some 1000) 1000))]"
    by (subst event [THEN conjunct2, THEN conjunct2, rule_format]) (simp_all add: ev_defs)
  have r1: "withdrawalReceiptAsync sample_ext
       (sample_contract (Some (sample_receipt ERC721 (Some 7) None))) (sample_address ''default'') =
     Inr (Some (sample_normalized_receipt ERC721 (Some 7) None 7))"
    by (subst stored [THEN conjunct1, rule_format]) (simp_all add: rc_defs)
  have r2: "withdrawalReceiptAsync sample_ext
       (sample_contract (Some (sample_receipt ERC721X (Some 3) (Some 500))))
       (sample_address ''default'') =
     Inr (Some (sample_normalized_receipt ERC721X (Some 3) (Some 500) 500))"
    by (subst stored [THEN conjunct2, THEN conjunct1, rule_format]) (simp_all add: rc_defs)
  have r3: "withdrawalReceiptAsync sample_ext
       (sample_contract (Some (sample_receipt ERC20 None (Some 90)))) (sample_address ''default'') =
     Inr (Some (sample_normalized_receipt ERC20 None (Some 90) 90))"
    by (subst stored [THEN conjunct2, THEN conjunct2, rule_format]) (simp_all add: rc_defs)
  have r4: "withdrawalReceiptAsync sample_ext
       (sample_contract (Some (sample_receipt ETH None (Some 1000)))) (sample_address ''default'') =
     Inr (Some (sample_normalized_receipt ETH None (Some 1000) 1000))"
    by (subst stored [THEN conjunct2, THEN conjunct2, rule_format]) (simp_all add: rc_defs)
  from e1 e2 e3 e4 r1 r2 r3 r4 show ?thesis by blast
qed

text \<open>
  Claim C10. For a token kind other than \<open>ERC721\<close> and \<open>ERC721X\<close>, one that the
  enumeration does not know included, both decoders run the default branch and nothing
  else of the \<^verbatim>\<open>switch\<close>: the identifier is not read and stays unset, the amount and
  \<open>value\<close> are the unmarshalled amount field, and the kind itself is never a reason to
  throw, since the outcome is that of unmarshalling the amount, the two addresses (and
  the withdrawal nonce) and the signatures.
\<close>

theorem default_branch_for_other_kinds:
  "getTokenKind msg \<noteq> ERC721 \<and> getTokenKind msg \<noteq> ERC721X \<and>
   getTokenKind receipt \<noteq> ERC721 \<and> getTokenKind receipt \<noteq> ERC721X \<Longrightarrow>
   (topics ev = Some (t # ts) \<longrightarrow> t = tokenWithdrawalSignedEventTopic \<longrightarrow>
    B64ToUint8Array ext (data ev) = Inr buf \<longrightarrow>
    TokenWithdrawalSigned_deserializeBinary ext buf = Inr msg \<longrightarrow>
    on_event ext ev =
      and_then (unmarshalBigUIntPB ext (getTokenAmount msg)) (\<lambda>amt.
      and_then (UnmarshalPB ext (getTokenOwner msg)) (\<lambda>towner.
      and_then (UnmarshalPB ext (getTokenContract msg)) (\<lambda>contract.
      and_then (map_throwing (splitSignature ext) (getValidatorSignaturesList msg)) (\<lambda>sgs.
      Inr [(EVENT_TOKEN_WITHDRAWAL,
            TokenWithdrawal
              \<lparr>tokenOwner = towner, tokenContract = contract, tokenKind = getTokenKind msg,
               tokenId = None, tokenAmount = Some amt, sigs = sgs, value' = amt\<rparr>)]))))) \<and>
   (staticCallAsync gw ''WithdrawalReceipt''
      (WithdrawalReceiptRequest \<lparr>wr_owner = Some (MarshalPB ext owner)\<rparr>) = Inr res \<longrightarrow>
    getReceipt res = Some receipt \<longrightarrow>
    withdrawalReceiptAsync ext gw owner =
      and_then (unmarshalBigUIntPB ext (getTokenAmount receipt)) (\<lambda>amt.
      and_then (UnmarshalPB ext (getTokenOwner receipt)) (\<lambda>towner.
      and_then (UnmarshalPB ext (getTokenContract receipt)) (\<lambda>contract.
      and_then (new_BN ext (getWithdrawalNonce receipt)) (\<lambda>wnonce.
      and_then (map_throwing (splitSignature ext) (getValidatorSignaturesList receipt)) (\<lambda>sgs.
      Inr (Some
            \<lparr>tokenOwner = towner, tokenContract = contract, tokenKind = getTokenKind receipt,
             tokenId = None, tokenAmount = Some amt, sigs = sgs, value' = amt,
             withdrawalNonce = wnonce\<rparr>)))))))"
proof (intro conjI impI)
  assume k: "getTokenKind msg \<noteq> ERC721 \<and> getTokenKind msg \<noteq> ERC721X \<and>
   getTokenKind receipt \<noteq> ERC721 \<and> getTokenKind receipt \<noteq> ERC721X"
  note tf = token_fields_default [OF conjunct1 [OF k] conjunct1 [OF conjunct2 [OF k]]]
    token_fields_default [OF conjunct1 [OF conjunct2 [OF conjunct2 [OF k]]]
      conjunct2 [OF conjunct2 [OF conjunct2 [OF k]]]]
  { assume "topics ev = Some (t # ts)" "t = tokenWithdrawalSignedEventTopic"
      "B64ToUint8Array ext (data ev) = Inr buf"
      "TokenWithdrawalSigned_deserializeBinary ext buf = Inr msg"
    from on_event_withdrawal [OF this] k
    show "on_event ext ev =
      and_then (unmarshalBigUIntPB ext (getTokenAmount msg)) (\<lambda>amt.
      and_then (UnmarshalPB ext (getTokenOwner msg)) (\<lambda>towner.
      and_then (UnmarshalPB ext (getTokenContract msg)) (\<lambda>contract.
      and_then (map_throwing (splitSignature ext) (getValidatorSignaturesList msg)) (\<lambda>sgs.
      Inr [(EVENT_TOKEN_WITHDRAWAL,
            TokenWithdrawal
              \<lparr>tokenOwner = towner, tokenContract = contract, tokenKind = getTokenKind msg,
               tokenId = None, tokenAmount = Some amt, sigs = sgs, value' = amt\<rparr>)]))))"
      by (cases "unmarshalBigUIntPB ext (getTokenAmount msg)") (simp_all add: tf) }
  assume "staticCallAsync gw ''WithdrawalReceipt''
      (WithdrawalReceiptRequest \<lparr>wr_owner = Some (MarshalPB ext owner)\<rparr>) = Inr res"
    and present: "getReceipt res = Some receipt"
  from withdrawalReceiptAsync_call [OF this(1)] k present
  show "withdrawalReceiptAsync ext gw owner =
      and_then (unmarshalBigUIntPB ext (getTokenAmount receipt)) (\<lambda>amt.
      and_then (UnmarshalPB ext (getTokenOwner receipt)) (\<lambda>towner.
      and_then (UnmarshalPB ext (getTokenContract receipt)) (\<lambda>contract.
      and_then (new_BN ext (getWithdrawalNonce receipt)) (\<lambda>wnonce.
      and_then (map_throwing (splitSignature ext) (getValidatorSignaturesList receipt)) (\<lambda>sgs.
      Inr (Some
            \<lparr>tokenOwner = towner, tokenContract = contract, tokenKind = getTokenKind receipt,
             tokenId = None, tokenAmount = Some amt, sigs = sgs, value' = amt,
             withdrawalNonce = wnonce\<rparr>))))))"
    by (cases "unmarshalBigUIntPB ext (getTokenAmount receipt)") (simp_all add: tf)
qed

text \<open>
  A message of the unknown kind 7 that carries both an identifier and an amount: event
  and receipt decode, with the identifier unset.
\<close>

theorem default_branch_for_other_kinds_witness:
  "on_event (sample_event_ext (sample_signed (UNKNOWN 7) (Some 9) (Some 12))) sample_event =
     Inr [(EVENT_TOKEN_WITHDRAWAL, TokenWithdrawal (sample_args (UNKNOWN 7) None (Some 12) 12))] \<and>
   withdrawalReceiptAsync sample_ext
     (sample_contract (Some (sample_receipt (UNKNOWN 7) (Some 9) (Some 12))))
     (sample_address ''default'') =
     Inr (Some (sample_normalized_receipt (UNKNOWN 7) None (Some 12) 12))"
proof -
  let ?msg = "sample_signed (UNKNOWN 7) (Some 9) (Some 12)"
  let ?rc = "sample_receipt (UNKNOWN 7) (Some 9) (Some 12)"
  have kinds: "getTokenKind ?msg \<noteq> ERC721 \<and> getTokenKind ?msg \<noteq> ERC721X \<and>
               getTokenKind ?rc \<noteq> ERC721 \<and> getTokenKind ?rc \<noteq> ERC721X"
    by (simp add: sample_signed_def sample_receipt_def)
  have stored: "getReceipt \<lparr>getReceipt = Some ?rc\<rparr> = Some ?rc" by simp
  have first: "on_event (sample_event_ext ?msg) sample_event =
     Inr [(EVENT_TOKEN_WITHDRAWAL, TokenWithdrawal (sample_args (UNKNOWN 7) None (Some 12) 12))]"
    unfolding default_branch_for_other_kinds [OF kinds, THEN conjunct1, rule_format,
      OF sample_event_topics refl sample_event_payload sample_event_message]
    by (simp add: sample_event_ext_def sample_ext_def sample_signed_def sample_args_def
        sample_sigs_def)
  have second: "withdrawalReceiptAsync sample_ext (sample_contract (Some ?rc))
       (sample_address ''default'') =
     Inr (Some (sample_normalized_receipt (UNKNOWN 7) None (Some 12) 12))"
    unfolding default_branch_for_other_kinds [OF kinds, THEN conjunct2, rule_format,
      OF sample_contract_answer stored]
    by (simp add: sample_ext_def sample_receipt_def sample_normalized_receipt_def
        sample_sigs_def)
  from first second show ?thesis ..
qed

text \<open>
  Claim C6. Whenever an event or a receipt decodes, the list \<open>sigs\<close> of the normalized
  value has the length of the raw list of validator signatures, and its entry at each
  position is \<^verbatim>\<open>splitSignature\<close> of the raw entry at that position: nothing is sorted,
  dropped or repeated.
\<close>

theorem decode_keeps_signature_order:
  "(topics ev = Some (t # ts) \<longrightarrow> t = tokenWithdrawalSignedEventTopic \<longrightarrow>
    B64ToUint8Array ext (data ev) = Inr buf \<longrightarrow>
    TokenWithdrawalSigned_deserializeBinary ext buf = Inr msg \<longrightarrow>
    on_event ext ev = Inr out \<longrightarrow>
      (\<exists>n. out = [(EVENT_TOKEN_WITHDRAWAL, TokenWithdrawal n)] \<and>
           length (sigs n) = length (getValidatorSignaturesList msg) \<and>
           map (splitSignature ext) (getValidatorSignaturesList msg) = map Inr (sigs n) \<and>
           (\<forall>i<length (sigs n).
              splitSignature ext (getValidatorSignaturesList msg ! i) = Inr (sigs n ! i)))) \<and>
   (staticCallAsync gw ''WithdrawalReceipt''
      (WithdrawalReceiptRequest \<lparr>wr_owner = Some (MarshalPB ext owner)\<rparr>) = Inr res \<longrightarrow>
    getReceipt res = Some receipt \<longrightarrow>
    withdrawalReceiptAsync ext gw owner = Inr got \<longrightarrow>
      (\<exists>n. got = Some n \<and>
           length (sigs n) = length (getValidatorSignaturesList receipt) \<and>
           map (splitSignature ext) (getValidatorSignaturesList receipt) = map Inr (sigs n) \<and>
           (\<forall>i<length (sigs n).
              splitSignature ext (getValidatorSignaturesList receipt ! i) = Inr (sigs n ! i))))"
proof (intro conjI impI)
  assume "topics ev = Some (t # ts)" "t = tokenWithdrawalSignedEventTopic"
    "B64ToUint8Array ext (data ev) = Inr buf"
    "TokenWithdrawalSigned_deserializeBinary ext buf = Inr msg"
    "on_event ext ev = Inr out"
  from on_event_withdrawal_Inr [OF this] obtain n where
    out: "out = [(EVENT_TOKEN_WITHDRAWAL, TokenWithdrawal n)]" and
    sg: "map_throwing (splitSignature ext) (getValidatorSignaturesList msg) = Inr (sigs n)"
    by blast
  from sg have m: "map (splitSignature ext) (getValidatorSignaturesList msg) = map Inr (sigs n)"
    by (simp add: map_throwing_Inr)
  from out m map_Inr_nth [OF m]
  show "\<exists>n. out = [(EVENT_TOKEN_WITHDRAWAL, TokenWithdrawal n)] \<and>
           length (sigs n) = length (getValidatorSignaturesList msg) \<and>
           map (splitSignature ext) (getValidatorSignaturesList msg) = map Inr (sigs n) \<and>
           (\<forall>i<length (sigs n).
              splitSignature ext (getValidatorSignaturesList msg ! i) = Inr (sigs n ! i))"
    by blast
next
  assume "staticCallAsync gw ''WithdrawalReceipt''
      (WithdrawalReceiptRequest \<lparr>wr_owner = Some (MarshalPB ext owner)\<rparr>) = Inr res"
    "getReceipt res = Some receipt"
    "withdrawalReceiptAsync ext gw owner = Inr got"
  from withdrawalReceiptAsync_Inr [OF this] obtain n where
    got: "got = Some n" and
    sg: "map_throwing (splitSignature ext) (getValidatorSignaturesList receipt) = Inr (sigs n)"
    by blast
  from sg have m: "map (splitSignature ext) (getValidatorSignaturesList receipt) = map Inr (sigs n)"
    by (simp add: map_throwing_Inr)
  from got m map_Inr_nth [OF m]
  show "\<exists>n. got = Some n \<and>
           length (sigs n) = length (getValidatorSignaturesList receipt) \<and>
           map (splitSignature ext) (getValidatorSignaturesList receipt) = map Inr (sigs n) \<and>
           (\<forall>i<length (sigs n).
              splitSignature ext (getValidatorSignaturesList receipt ! i) = Inr (sigs n ! i))"
    by blast
qed

text \<open>The three signatures of the sample event and of the sample receipt, in order.\<close>

theorem decode_keeps_signature_order_witness:
  "on_event (sample_event_ext (sample_signed ERC721X (Some 3) (Some 500))) sample_event =
     Inr [(EVENT_TOKEN_WITHDRAWAL, TokenWithdrawal (sample_args ERC721X (Some 3) (Some 500) 500))] \<and>
   length (sigs (sample_args ERC721X (Some 3) (Some 500) 500)) =
     length (getValidatorSignaturesList (sample_signed ERC721X (Some 3) (Some 500))) \<and>
   map (splitSignature (sample_event_ext (sample_signed ERC721X (Some 3) (Some 500))))
     (getValidatorSignaturesList (sample_signed ERC721X (Some 3) (Some 500)))
     = map Inr (sigs (sample_args ERC721X (Some 3) (Some 500) 500)) \<and>
   withdrawalReceiptAsync sample_ext (sample_contract (Some (sample_receipt ERC721 (Some 7) None)))
     (sample_address ''default'') =
     Inr (Some (sample_normalized_receipt ERC721 (Some 7) None 7)) \<and>
   length (sigs (sample_normalized_receipt ERC721 (Some 7) None 7)) =
     length (getValidatorSignaturesList (sample_receipt ERC721 (Some 7) None)) \<and>
   map (splitSignature sample_ext)
     (getValidatorSignaturesList (sample_receipt ERC721 (Some 7) None))
     = map Inr (sigs (sample_normalized_receipt ERC721 (Some 7) None 7))"
proof -
  let ?msg = "sample_signed ERC721X (Some 3) (Some 500)"
  let ?rc = "sample_receipt ERC721 (Some 7) None"
  from decode_keeps_signature_order [THEN conjunct1, rule_format,
      OF sample_event_topics refl sample_event_payload sample_event_message sample_event_run]
  have first:
    "length (sigs (sample_args ERC721X (Some 3) (Some 500) 500)) =
       length (getValidatorSignaturesList ?msg) \<and>
     map (splitSignature (sample_event_ext ?msg)) (getValidatorSignaturesList ?msg)
       = map Inr (sigs (sample_args ERC721X (Some 3) (Some 500) 500))"
    by auto
  have stored: "getReceipt \<lparr>getReceipt = Some ?rc\<rparr> = Some ?rc" by simp
  from decode_keeps_signature_order [THEN conjunct2, rule_format,
      OF sample_contract_answer stored sample_receipt_run]
  have second:
    "length (sigs (sample_normalized_receipt ERC721 (Some 7) None 7)) =
       length (getValidatorSignaturesList ?rc) \<and>
     map (splitSignature sample_ext) (getValidatorSignaturesList ?rc)
       = map Inr (sigs (sample_normalized_receipt ERC721 (Some 7) None 7))"
    by auto
  from sample_event_run first sample_receipt_run second show ?thesis by blast
qed

text \<open>
  Claim C5. When the static call answers, \<^verbatim>\<open>withdrawalReceiptAsync\<close> returns
  \<^verbatim>\<open>null\<close> if the response holds no receipt; if it holds one, the method never returns
  \<^verbatim>\<open>null\<close>, and it returns the normalized receipt made of the decoded fields whenever
  the fields decode.
\<close>

theorem withdrawalReceiptAsync_absent_or_decoded:
  "staticCallAsync gw ''WithdrawalReceipt''
     (WithdrawalReceiptRequest \<lparr>wr_owner = Some (MarshalPB ext owner)\<rparr>) = Inr res \<Longrightarrow>
   (getReceipt res = None \<longrightarrow> withdrawalReceiptAsync ext gw owner = Inr None) \<and>
   (\<forall>receipt. getReceipt res = Some receipt \<longrightarrow>
      withdrawalReceiptAsync ext gw owner \<noteq> Inr None \<and>
      (\<forall>tid amt val towner contract wnonce sgs.
         token_fields ext receipt = Inr (tid, amt, val) \<and>
         UnmarshalPB ext (getTokenOwner receipt) = Inr towner \<and>
         UnmarshalPB ext (getTokenContract receipt) = Inr contract \<and>
         new_BN ext (getWithdrawalNonce receipt) = Inr wnonce \<and>
         map (splitSignature ext) (getValidatorSignaturesList receipt) = map Inr sgs \<longrightarrow>
         withdrawalReceiptAsync ext gw owner =
           Inr (Some \<lparr>tokenOwner = towner, tokenContract = contract,
                      tokenKind = getTokenKind receipt, tokenId = tid, tokenAmount = amt,
                      sigs = sgs, value' = val, withdrawalNonce = wnonce\<rparr>)))"
proof (intro conjI impI allI)
  assume call: "staticCallAsync gw ''WithdrawalReceipt''
     (WithdrawalReceiptRequest \<lparr>wr_owner = Some (MarshalPB ext owner)\<rparr>) = Inr res"
  note eq = withdrawalReceiptAsync_call [OF call]
  { assume "getReceipt res = None"
    then show "withdrawalReceiptAsync ext gw owner = Inr None"
      by (simp add: eq) }
  fix receipt
  assume present: "getReceipt res = Some receipt"
  show "withdrawalReceiptAsync ext gw owner \<noteq> Inr None"
    by (auto simp: eq present and_then_eq_Inr split: prod.splits)
  fix tid amt val towner contract wnonce sgs
  assume "token_fields ext receipt = Inr (tid, amt, val) \<and>
         UnmarshalPB ext (getTokenOwner receipt) = Inr towner \<and>
         UnmarshalPB ext (getTokenContract receipt) = Inr contract \<and>
         new_BN ext (getWithdrawalNonce receipt) = Inr wnonce \<and>
         map (splitSignature ext) (getValidatorSignaturesList receipt) = map Inr sgs"
  then show "withdrawalReceiptAsync ext gw owner =
           Inr (Some \<lparr>tokenOwner = towner, tokenContract = contract,
                      tokenKind = getTokenKind receipt, tokenId = tid, tokenAmount = amt,
                      sigs = sgs, value' = val, withdrawalNonce = wnonce\<rparr>)"
    by (simp add: eq present map_throwing_Inr [symmetric])
qed

text \<open>A gateway with no stored receipt, and one that stores an \<open>ERC20\<close> receipt of 90.\<close>

theorem withdrawalReceiptAsync_absent_or_decoded_witness:
  "withdrawalReceiptAsync sample_ext (sample_contract None) (sample_address ''default'')
     = Inr None \<and>
   withdrawalReceiptAsync sample_ext (sample_contract (Some (sample_receipt ERC20 None (Some 90))))
     (sample_address ''default'') \<noteq> Inr None \<and>
   withdrawalReceiptAsync sample_ext (sample_contract (Some (sample_receipt ERC20 None (Some 90))))
     (sample_address ''default'') =
     Inr (Some (sample_normalized_receipt ERC20 None (Some 90) 90))"
proof -
  let ?rc = "sample_receipt ERC20 None (Some 90)"
  note absent = withdrawalReceiptAsync_absent_or_decoded
    [OF sample_contract_answer, THEN conjunct1, rule_format]
  note present = withdrawalReceiptAsync_absent_or_decoded
    [OF sample_contract_answer, THEN conjunct2, rule_format, of "Some ?rc" ?rc]
  have 1: "withdrawalReceiptAsync sample_ext (sample_contract None) (sample_address ''default'')
             = Inr None"
    by (rule absent) simp
  have 2: "withdrawalReceiptAsync sample_ext (sample_contract (Some ?rc))
             (sample_address ''default'') \<noteq> Inr None"
    by (rule present [THEN conjunct1]) simp
  have "withdrawalReceiptAsync sample_ext (sample_contract (Some ?rc))
       (sample_address ''default'') =
     Inr (Some \<lparr>tokenOwner = sample_address ''default'', tokenContract = sample_address ''eth'',
                tokenKind = getTokenKind ?rc, tokenId = None, tokenAmount = Some 90,
                sigs = sample_sigs, value' = 90, withdrawalNonce = 5\<rparr>)"
    by (rule present [THEN conjunct2, rule_format])
       (simp_all add: token_fields_def sample_receipt_def sample_ext_def sample_sigs_def)
  then have 3: "withdrawalReceiptAsync sample_ext (sample_contract (Some ?rc))
       (sample_address ''default'') =
     Inr (Some (sample_normalized_receipt ERC20 None (Some 90) 90))"
    by (simp add: sample_receipt_def sample_normalized_receipt_def)
  from 1 2 3 show ?thesis by blast
qed

text \<open>
  Claim C8. The listener ignores an event whose \<^verbatim>\<open>topics\<close> are missing or empty, or
  whose first topic is neither \<^verbatim>\<open>event:TokenWithdrawalSigned\<close> nor
  \<^verbatim>\<open>event:ContractMappingConfirmed\<close>: it emits nothing and throws nothing, whatever
  the decoding functions would do. Conversely it emits or throws only when the first
  topic is one of the two, and then it does decode: it never ends without emitting, and
  a failure of the base64 decoding of the payload is what it throws.
\<close>

theorem on_event_dispatch:
  "((topics ev = None \<or> topics ev = Some [] \<or>
     (\<exists>t ts. topics ev = Some (t # ts) \<and> t \<noteq> tokenWithdrawalSignedEventTopic \<and>
        t \<noteq> contractMappingConfirmedEventTopic)) \<longrightarrow>
      on_event ext ev = Inr []) \<and>
   (on_event ext ev \<noteq> Inr [] \<longrightarrow>
      (\<exists>t ts. topics ev = Some (t # ts) \<and>
         (t = tokenWithdrawalSignedEventTopic \<or> t = contractMappingConfirmedEventTopic))) \<and>
   (\<forall>t ts. topics ev = Some (t # ts) \<and>
        (t = tokenWithdrawalSignedEventTopic \<or> t = contractMappingConfirmedEventTopic) \<longrightarrow>
      on_event ext ev \<noteq> Inr [] \<and>
      (\<forall>e. B64ToUint8Array ext (data ev) = Inl e \<longrightarrow> on_event ext ev = Inl e))"
proof (intro conjI impI allI)
  assume "topics ev = None \<or> topics ev = Some [] \<or>
     (\<exists>t ts. topics ev = Some (t # ts) \<and> t \<noteq> tokenWithdrawalSignedEventTopic \<and>
        t \<noteq> contractMappingConfirmedEventTopic)"
  then show "on_event ext ev = Inr []" by (rule on_event_ignored)
next
  assume ne: "on_event ext ev \<noteq> Inr []"
  show "\<exists>t ts. topics ev = Some (t # ts) \<and>
         (t = tokenWithdrawalSignedEventTopic \<or> t = contractMappingConfirmedEventTopic)"
  proof (rule ccontr)
    assume no: "\<not> ?thesis"
    have "topics ev = None \<or> topics ev = Some [] \<or>
     (\<exists>t ts. topics ev = Some (t # ts) \<and> t \<noteq> tokenWithdrawalSignedEventTopic \<and>
        t \<noteq> contractMappingConfirmedEventTopic)"
    proof (cases "topics ev")
      case None
      then show ?thesis by simp
    next
      case (Some l)
      with no show ?thesis by (cases l) auto
    qed
    then have "on_event ext ev = Inr []" by (rule on_event_ignored)
    with ne show False by contradiction
  qed
next
  fix t ts
  assume m: "topics ev = Some (t # ts) \<and>
        (t = tokenWithdrawalSignedEventTopic \<or> t = contractMappingConfirmedEventTopic)"
  then show "on_event ext ev \<noteq> Inr []" by (blast dest: on_event_matched(1))
  fix e
  assume "B64ToUint8Array ext (data ev) = Inl e"
  with m show "on_event ext ev = Inl e" by (blast dest: on_event_matched(2))
qed

text \<open>
  Events with no topics, with an empty list, with a foreign topic, and with the two
  topics of the gateway; the sample \<^verbatim>\<open>deserializeBinary\<close> throws on every input.
\<close>

theorem on_event_dispatch_witness:
  "on_event sample_ext \<lparr>topics = None, data = ''AAEC''\<rparr> = Inr [] \<and>
   on_event sample_ext \<lparr>topics = Some [], data = ''AAEC''\<rparr> = Inr [] \<and>
   on_event sample_ext \<lparr>topics = Some [''event:Deposit''], data = ''AAEC''\<rparr> = Inr [] \<and>
   on_event sample_ext sample_event \<noteq> Inr [] \<and>
   on_event sample_ext
     \<lparr>topics = Some [''event:ContractMappingConfirmed'', ''event:Deposit''], data = ''AAE''\<rparr>
     = Inl (JSError (JSString ''bad base64''))"
proof -
  note ignored = on_event_dispatch [THEN conjunct1, rule_format]
  note matched = on_event_dispatch [THEN conjunct2, THEN conjunct2, rule_format]
  have 1: "on_event sample_ext \<lparr>topics = None, data = ''AAEC''\<rparr> = Inr []"
    by (rule ignored) simp
  have 2: "on_event sample_ext \<lparr>topics = Some [], data = ''AAEC''\<rparr> = Inr []"
    by (rule ignored) simp
  have 3: "on_event sample_ext \<lparr>topics = Some [''event:Deposit''], data = ''AAEC''\<rparr> = Inr []"
    by (rule ignored)
       (simp add: tokenWithdrawalSignedEventTopic_def contractMappingConfirmedEventTopic_def)
  have 4: "on_event sample_ext sample_event \<noteq> Inr []"
    by (rule matched [of _ "''event:TokenWithdrawalSigned''" "[]", THEN conjunct1])
       (simp add: sample_event_def tokenWithdrawalSignedEventTopic_def)
  have 5: "on_event sample_ext
     \<lparr>topics = Some [''event:ContractMappingConfirmed'', ''event:Deposit''], data = ''AAE''\<rparr>
     = Inl (JSError (JSString ''bad base64''))"
    by (rule matched [of _ "''event:ContractMappingConfirmed''" "[''event:Deposit'']",
                THEN conjunct2, rule_format])
       (simp_all add: contractMappingConfirmedEventTopic_def sample_ext_def)
  from 1 2 3 4 5 show ?thesis by blast
qed

text \<open>
  The second path of the listener. An event whose first topic is
  \<^verbatim>\<open>event:ContractMappingConfirmed\<close> and whose payload decodes is emitted once, under
  the name \<^verbatim>\<open>event_contract_mapping_confirmed\<close>, as the pair of the unmarshalled
  foreign and local contract addresses; the token kind plays no part.
\<close>

theorem on_event_contract_mapping:
  "topics ev = Some (t # ts) \<Longrightarrow> t = contractMappingConfirmedEventTopic \<Longrightarrow>
   B64ToUint8Array ext (data ev) = Inr buf \<Longrightarrow>
   ContractMappingConfirmed_deserializeBinary ext buf = Inr confirmed \<Longrightarrow>
   UnmarshalPB ext (getForeignContract confirmed) = Inr foreign \<Longrightarrow>
   UnmarshalPB ext (getLocalContract confirmed) = Inr loc \<Longrightarrow>
   on_event ext ev =
     Inr [(EVENT_CONTRACT_MAPPING_CONFIRMED,
           ContractMappingConfirmed \<lparr>foreignContract = foreign, localContract = loc\<rparr>)]"
  using topics_distinct by (auto simp: on_event_def)

text \<open>A confirmed mapping between the two sample addresses.\<close>

theorem on_event_contract_mapping_witness:
  "on_event sample_mapping_ext
     \<lparr>topics = Some [''event:ContractMappingConfirmed''], data = ''AAEC''\<rparr> =
   Inr [(''event_contract_mapping_confirmed'',
         ContractMappingConfirmed
           \<lparr>foreignContract = sample_address ''eth'',
            localContract = sample_address ''default''\<rparr>)]"
proof -
  let ?ev = "\<lparr>topics = Some [''event:ContractMappingConfirmed''], data = ''AAEC''\<rparr>"
  let ?msg = "\<lparr>getForeignContract = Some (sample_address ''eth''),
               getLocalContract = Some (sample_address ''default'')\<rparr>"
  have 1: "topics ?ev = Some (''event:ContractMappingConfirmed'' # [])" by simp
  have 2: "''event:ContractMappingConfirmed'' = contractMappingConfirmedEventTopic"
    by (simp add: contractMappingConfirmedEventTopic_def)
  have 3: "B64ToUint8Array sample_mapping_ext (data ?ev) = Inr [0, 1, 2]"
    by (simp add: sample_mapping_ext_def sample_ext_def)
  have 4: "ContractMappingConfirmed_deserializeBinary sample_mapping_ext [0, 1, 2] = Inr ?msg"
    by (simp add: sample_mapping_ext_def)
  have 5: "UnmarshalPB sample_mapping_ext (getForeignContract ?msg) = Inr (sample_address ''eth'')"
    by (simp add: sample_mapping_ext_def sample_ext_def)
  have 6: "UnmarshalPB sample_mapping_ext (getLocalContract ?msg) = Inr (sample_address ''default'')"
    by (simp add: sample_mapping_ext_def sample_ext_def)
  from on_event_contract_mapping [OF 1 2 3 4 5 6]
  show ?thesis by (simp add: EVENT_CONTRACT_MAPPING_CONFIRMED_def)
qed

section \<open>Withdrawal request builder: results\<close>

text \<open>
  Claim C7. \<^verbatim>\<open>withdrawETHAsync\<close> submits, under the method name \<^verbatim>\<open>WithdrawETH\<close>, a
  request that holds the marshalled amount and the marshalled address of the mainnet
  gateway; the request type has no field for a token contract. When the recipient is
  omitted, the request of each of the four methods has no recipient.
\<close>

theorem withdrawETHAsync_request:
  "withdrawETHAsync ext gw amount ethereumGateway recipient =
     callAsync gw ''WithdrawETH''
       (WithdrawETHRequest
          \<lparr>we_amount = Some (marshalBigUIntPB ext amount),
           we_mainnetGateway = Some (MarshalPB ext ethereumGateway),
           we_recipient = map_option (MarshalPB ext) recipient\<rparr>) \<and>
   withdrawETHAsync ext gw amount ethereumGateway None =
     callAsync gw ''WithdrawETH''
       (WithdrawETHRequest
          \<lparr>we_amount = Some (marshalBigUIntPB ext amount),
           we_mainnetGateway = Some (MarshalPB ext ethereumGateway),
           we_recipient = None\<rparr>) \<and>
   withdrawERC20Async ext gw amount contract None =
     callAsync gw ''WithdrawToken''
       (WithdrawTokenRequest
          \<lparr>wt_tokenKind = Some ERC20, wt_tokenId = None,
           wt_tokenAmount = Some (marshalBigUIntPB ext amount),
           wt_tokenContract = Some (MarshalPB ext contract), wt_recipient = None\<rparr>) \<and>
   withdrawERC721Async ext gw tid contract None =
     callAsync gw ''WithdrawToken''
       (WithdrawTokenRequest
          \<lparr>wt_tokenKind = Some ERC721, wt_tokenId = Some (marshalBigUIntPB ext tid),
           wt_tokenAmount = None,
           wt_tokenContract = Some (MarshalPB ext contract), wt_recipient = None\<rparr>) \<and>
   withdrawERC721XAsync ext gw tid amount contract None =
     callAsync gw ''WithdrawToken''
       (WithdrawTokenRequest
          \<lparr>wt_tokenKind = Some ERC721X, wt_tokenId = Some (marshalBigUIntPB ext tid),
           wt_tokenAmount = Some (marshalBigUIntPB ext amount),
           wt_tokenContract = Some (MarshalPB ext contract), wt_recipient = None\<rparr>)"
  by (cases recipient)
     (simp_all add: withdrawETHAsync_def withdrawERC20Async_def withdrawERC721Async_def
        withdrawERC721XAsync_def)



section \<open>Failures of the collaborators\<close>

text \<open>
  Failures of the collaborators pass through unchanged. When the client rejects the
  read of the sequence number, \<^verbatim>\<open>Handle\<close> rejects with the same value and makes no
  envelope; when the static call rejects, \<^verbatim>\<open>withdrawalReceiptAsync\<close> rejects with
  the same value.
\<close>

theorem transport_failure_propagates:
  "(getNonce2Async (client this) ''eth'' (fromAddress this) = Inl e \<longrightarrow>
      Handle serializeBinary this txData = Inl e) \<and>
   (staticCallAsync gw ''WithdrawalReceipt''
      (WithdrawalReceiptRequest \<lparr>wr_owner = Some (MarshalPB ext owner)\<rparr>) = Inl e' \<longrightarrow>
      withdrawalReceiptAsync ext gw owner = Inl e')"
  by (simp add: Handle_def withdrawalReceiptAsync_def)

text \<open>The sample middleware with another account, and a gateway whose transport is down.\<close>

theorem transport_failure_propagates_witness:
  "Handle sample_serializeBinary (sample_middleware\<lparr>fromAddress := ''0xdef''\<rparr>) [1, 2, 3] =
     Inl (JSError (JSString ''unknown account'')) \<and>
   withdrawalReceiptAsync sample_ext
     (sample_contract None\<lparr>staticCallAsync := (\<lambda>method req. Inl (JSString ''timeout''))\<rparr>)
     (sample_address ''default'') = Inl (JSString ''timeout'')"
proof -
  let ?mw = "sample_middleware\<lparr>fromAddress := ''0xdef''\<rparr>"
  let ?gw = "sample_contract None\<lparr>staticCallAsync := (\<lambda>method req. Inl (JSString ''timeout''))\<rparr>"
  have 1: "Handle sample_serializeBinary ?mw [1, 2, 3] = Inl (JSError (JSString ''unknown account''))"
    by (rule transport_failure_propagates [THEN conjunct1, rule_format])
       (simp add: sample_middleware_def)
  have 2: "withdrawalReceiptAsync sample_ext ?gw (sample_address ''default'')
             = Inl (JSString ''timeout'')"
    by (rule transport_failure_propagates [THEN conjunct2, rule_format]) simp
  from 1 2 show ?thesis ..
qed

end
